theory Spec2Isabelle
  imports Main "HOL-Library.Multiset" "HOL-Library.Word"
begin

section \<open>Data model of the image store (image.go)\<close>

text \<open>
  The store keeps image bytes in a GridFS bucket and one \<open>ImageMeta\<close> document per image in
  the collection \<open>imageMetadata\<close>. Bytes are 8-bit words, a \<open>primitive.ObjectID\<close> is a
  number, a \<open>time.Time\<close> is an integer instant, and the custom metadata
  (\<open>map[string]any\<close>, never inspected by the store) is an association list.
\<close>

type_synonym bytes = "8 word list"
type_synonym object_id = nat
type_synonym time = int

record ImageMeta =
  ImageID :: string
  GridFSID :: object_id
  OriginalName :: string
  ContentType :: string
  Size :: int
  Checksum :: string
  Tags :: "string list"
  Metadata :: "(string \<times> string) list"
  CreatedAt :: time
  UpdatedAt :: time

text \<open>
  Errors. \<open>backend_err\<close> are the errors of the two drivers: \<open>mongo.ErrNoDocuments\<close>,
  \<open>gridfs.ErrFileNotFound\<close>, a duplicate-key write error, and any other failure with its
  message. \<open>error\<close> are the errors the store returns: its three sentinel values and
  \<open>fmt.Errorf("<context>: %w", err)\<close>, a driver error wrapped with the operation context.
\<close>

datatype backend_err = ErrNoDocuments | ErrFileNotFound | DuplicateKey | IOErr string

datatype error =
    ErrImageNotFound
  | ErrInvalidImageType
  | ErrImageAlreadyExists
  | Wrapped string backend_err

text \<open>
  Every call the store makes on a driver. The store records the calls it issued, oldest
  first, so that the order of the steps of an operation, and the absence of a step, can be
  stated. A value of type \<open>faults\<close> says which calls the backend fails, and with which error;
  it is a parameter of every operation.
\<close>

datatype call =
    FindOne_checksum string
  | FindOne_imageID string
  | OpenUploadStreamWithID object_id string
  | UploadStream_Write object_id
  | UploadStream_Close object_id
  | InsertOne string
  | Bucket_Delete object_id
  | OpenDownloadStream object_id
  | DeleteOne string
  | UpdateOne string
  | Find_meta "string list option" "int option" "int option"
  | Cursor_Decode_meta string
  | Cursor_Err
  | Bucket_Find
  | Cursor_Decode_file object_id
  | CountDocuments_gridfsID object_id

type_synonym faults = "call \<Rightarrow> backend_err option"

definition no_faults :: faults where
  "no_faults = (\<lambda>c. None)"

record ImageStore =
  bucket :: "(object_id \<times> bytes) list"
  metaCollection :: "ImageMeta list"
  calls :: "call list"

text \<open>
  What the store takes from outside on one call: \<open>http.DetectContentType\<close>, the hex form of
  \<open>sha256.Sum256\<close>, the identifier \<open>xid.New().String()\<close>, \<open>primitive.NewObjectID()\<close> and
  \<open>time.Now()\<close>.
\<close>

record env =
  DetectContentType :: "bytes \<Rightarrow> string"
  sha256_hex :: "bytes \<Rightarrow> string"
  xid_New :: string
  NewObjectID :: object_id
  time_Now :: time

section \<open>The two collaborators\<close>

text \<open>
  Modelled from the spec: the Blob Repository and the Metadata Catalog (section 6 of the
  specification). The GridFS and MongoDB drivers are libraries outside the repository; the
  bucket is a list of (key, bytes), one entry per file, in creation order, the collection a
  list of documents in insertion order. A call that the fault parameter fails returns that
  error and changes neither list. \<open>FindOne\<close> returns the first matching document,
  \<open>DeleteOne\<close> and \<open>UpdateOne\<close> act on the first matching document, opening or deleting a
  key that is not in the bucket fails with \<open>ErrFileNotFound\<close>. The chunks of a file are not
  modelled, so nothing is said of what a failed delete leaves of them.
\<close>

definition issue :: "call \<Rightarrow> ImageStore \<Rightarrow> ImageStore" where
  "issue c s = s\<lparr>calls := calls s @ [c]\<rparr>"

definition coll_FindOne ::
  "faults \<Rightarrow> call \<Rightarrow> (ImageMeta \<Rightarrow> bool) \<Rightarrow> ImageStore \<Rightarrow> (backend_err + ImageMeta) \<times> ImageStore" where
  "coll_FindOne flt c P s =
     ((case flt c of
         Some e \<Rightarrow> Inl e
       | None \<Rightarrow> (case find P (metaCollection s) of
                    None \<Rightarrow> Inl ErrNoDocuments
                  | Some m \<Rightarrow> Inr m)),
      issue c s)"

definition coll_InsertOne :: "faults \<Rightarrow> ImageMeta \<Rightarrow> ImageStore \<Rightarrow> backend_err option \<times> ImageStore" where
  "coll_InsertOne flt m s =
     (case flt (InsertOne (ImageID m)) of
        Some e \<Rightarrow> (Some e, issue (InsertOne (ImageID m)) s)
      | None \<Rightarrow> (None, issue (InsertOne (ImageID m)) (s\<lparr>metaCollection := metaCollection s @ [m]\<rparr>)))"

fun remove_first :: "('a \<Rightarrow> bool) \<Rightarrow> 'a list \<Rightarrow> 'a list" where
  "remove_first P [] = []"
| "remove_first P (x # xs) = (if P x then xs else x # remove_first P xs)"

fun update_first :: "('a \<Rightarrow> bool) \<Rightarrow> ('a \<Rightarrow> 'a) \<Rightarrow> 'a list \<Rightarrow> 'a list" where
  "update_first P f [] = []"
| "update_first P f (x # xs) = (if P x then f x # xs else x # update_first P f xs)"

definition coll_DeleteOne :: "faults \<Rightarrow> string \<Rightarrow> ImageStore \<Rightarrow> backend_err option \<times> ImageStore" where
  "coll_DeleteOne flt imageID s =
     (case flt (DeleteOne imageID) of
        Some e \<Rightarrow> (Some e, issue (DeleteOne imageID) s)
      | None \<Rightarrow> (None, issue (DeleteOne imageID)
                   (s\<lparr>metaCollection := remove_first (\<lambda>m. ImageID m = imageID) (metaCollection s)\<rparr>)))"

text \<open>\<open>UpdateOne\<close> returns the driver error or \<open>result.MatchedCount\<close>.\<close>

definition coll_UpdateOne ::
  "faults \<Rightarrow> string \<Rightarrow> (ImageMeta \<Rightarrow> ImageMeta) \<Rightarrow> ImageStore \<Rightarrow> (backend_err + int) \<times> ImageStore" where
  "coll_UpdateOne flt imageID upd s =
     (case flt (UpdateOne imageID) of
        Some e \<Rightarrow> (Inl e, issue (UpdateOne imageID) s)
      | None \<Rightarrow>
          (if \<exists>m \<in> set (metaCollection s). ImageID m = imageID
           then (Inr 1, issue (UpdateOne imageID)
                   (s\<lparr>metaCollection := update_first (\<lambda>m. ImageID m = imageID) upd (metaCollection s)\<rparr>))
           else (Inr 0, issue (UpdateOne imageID) s)))"

definition coll_CountDocuments :: "faults \<Rightarrow> object_id \<Rightarrow> ImageStore \<Rightarrow> (backend_err + int) \<times> ImageStore" where
  "coll_CountDocuments flt gid s =
     ((case flt (CountDocuments_gridfsID gid) of
         Some e \<Rightarrow> Inl e
       | None \<Rightarrow> Inr (int (length (filter (\<lambda>m. GridFSID m = gid) (metaCollection s))))),
      issue (CountDocuments_gridfsID gid) s)"

text \<open>
  The upload stream of the driver. \<open>OpenUploadStreamWithID\<close> gives a stream for the key,
  \<open>Write\<close> buffers the bytes in the stream, and the file appears in the bucket only when
  the stream is closed: \<open>Close\<close> creates the file from what was buffered. A failed write
  buffers nothing; a failed close creates nothing.
\<close>

record UploadStream =
  FileID :: object_id
  buffered :: bytes

definition bucket_OpenUploadStreamWithID ::
  "faults \<Rightarrow> object_id \<Rightarrow> string \<Rightarrow> ImageStore \<Rightarrow> (backend_err + UploadStream) \<times> ImageStore" where
  "bucket_OpenUploadStreamWithID flt gid filename s =
     ((case flt (OpenUploadStreamWithID gid filename) of
         Some e \<Rightarrow> Inl e
       | None \<Rightarrow> Inr \<lparr>FileID = gid, buffered = []\<rparr>),
      issue (OpenUploadStreamWithID gid filename) s)"

definition uploadStream_Write ::
  "faults \<Rightarrow> UploadStream \<Rightarrow> bytes \<Rightarrow> ImageStore \<Rightarrow>
   (backend_err option \<times> UploadStream) \<times> ImageStore" where
  "uploadStream_Write flt us p s =
     ((case flt (UploadStream_Write (FileID us)) of
         Some e \<Rightarrow> (Some e, us)
       | None \<Rightarrow> (None, us\<lparr>buffered := buffered us @ p\<rparr>)),
      issue (UploadStream_Write (FileID us)) s)"

definition uploadStream_Close ::
  "faults \<Rightarrow> UploadStream \<Rightarrow> ImageStore \<Rightarrow> backend_err option \<times> ImageStore" where
  "uploadStream_Close flt us s =
     (case flt (UploadStream_Close (FileID us)) of
        Some e \<Rightarrow> (Some e, issue (UploadStream_Close (FileID us)) s)
      | None \<Rightarrow>
          (None, issue (UploadStream_Close (FileID us))
                   (s\<lparr>bucket := bucket s @ [(FileID us, buffered us)]\<rparr>)))"

definition bucket_Delete :: "faults \<Rightarrow> object_id \<Rightarrow> ImageStore \<Rightarrow> backend_err option \<times> ImageStore" where
  "bucket_Delete flt gid s =
     (case flt (Bucket_Delete gid) of
        Some e \<Rightarrow> (Some e, issue (Bucket_Delete gid) s)
      | None \<Rightarrow>
          (if gid \<in> fst ` set (bucket s)
           then (None, issue (Bucket_Delete gid) (s\<lparr>bucket := filter (\<lambda>kv. fst kv \<noteq> gid) (bucket s)\<rparr>))
           else (Some ErrFileNotFound, issue (Bucket_Delete gid) s)))"

definition bucket_OpenDownloadStream ::
  "faults \<Rightarrow> object_id \<Rightarrow> ImageStore \<Rightarrow> (backend_err + bytes) \<times> ImageStore" where
  "bucket_OpenDownloadStream flt gid s =
     ((case flt (OpenDownloadStream gid) of
         Some e \<Rightarrow> Inl e
       | None \<Rightarrow> (case map_of (bucket s) gid of
                    None \<Rightarrow> Inl ErrFileNotFound
                  | Some imageData \<Rightarrow> Inr imageData)),
      issue (OpenDownloadStream gid) s)"

text \<open>
  \<open>Find\<close> with the filter and the options \<open>ListImages\<close> builds: the filter is empty or
  \<open>{"tags": {"$in": tags}}\<close> (a document matches when one of its tags is among the given
  ones), the sort is always \<open>{"createdAt": -1}\<close>, skip and limit are set or not. The driver
  sorts, then skips, then limits. Documents with equal \<open>createdAt\<close> keep their insertion
  order.
\<close>

definition matches_filter :: "string list option \<Rightarrow> ImageMeta \<Rightarrow> bool" where
  "matches_filter tagsIn m =
     (case tagsIn of
        None \<Rightarrow> True
      | Some tags \<Rightarrow> (\<exists>t \<in> set (Tags m). t \<in> set tags))"

definition coll_Find ::
  "faults \<Rightarrow> string list option \<Rightarrow> int option \<Rightarrow> int option \<Rightarrow> ImageStore \<Rightarrow>
   (backend_err + ImageMeta list) \<times> ImageStore" where
  "coll_Find flt tagsIn optLimit optSkip s =
     ((case flt (Find_meta tagsIn optLimit optSkip) of
         Some e \<Rightarrow> Inl e
       | None \<Rightarrow>
           (let matched = filter (matches_filter tagsIn) (metaCollection s);
                sorted = sort_key (\<lambda>m. - CreatedAt m) matched;
                skipped = (case optSkip of None \<Rightarrow> sorted | Some k \<Rightarrow> drop (nat k) sorted);
                limited = (case optLimit of None \<Rightarrow> skipped | Some n \<Rightarrow> take (nat n) skipped)
            in Inr limited)),
      issue (Find_meta tagsIn optLimit optSkip) s)"

text \<open>\<open>bucket.Find(bson.M{})\<close>: a cursor over the keys of all files.\<close>

definition bucket_Find :: "faults \<Rightarrow> ImageStore \<Rightarrow> (backend_err + object_id list) \<times> ImageStore" where
  "bucket_Find flt s =
     ((case flt Bucket_Find of
         Some e \<Rightarrow> Inl e
       | None \<Rightarrow> Inr (map fst (bucket s))),
      issue Bucket_Find s)"

section \<open>Content identity\<close>

definition validTypes :: "string list" where
  "validTypes =
     [''image/jpeg'', ''image/jpg'', ''image/png'', ''image/gif'',
      ''image/webp'', ''image/bmp'', ''image/tiff'', ''image/svg+xml'']"

fun isValidImageType_loop :: "string list \<Rightarrow> string \<Rightarrow> bool" where
  "isValidImageType_loop [] contentType = False"
| "isValidImageType_loop (validType # rest) contentType =
     (if contentType = validType then True else isValidImageType_loop rest contentType)"

definition isValidImageType :: "string \<Rightarrow> bool" where
  "isValidImageType contentType = isValidImageType_loop validTypes contentType"

section \<open>Lookups\<close>

definition GetImageMeta :: "faults \<Rightarrow> ImageStore \<Rightarrow> string \<Rightarrow> (error + ImageMeta) \<times> ImageStore" where
  "GetImageMeta flt s imageID =
     (case coll_FindOne flt (FindOne_imageID imageID) (\<lambda>m. ImageID m = imageID) s of
        (Inl err, s1) \<Rightarrow>
          (if err = ErrNoDocuments then (Inl ErrImageNotFound, s1)
           else (Inl (Wrapped ''failed to get image metadata'' err), s1))
      | (Inr imageMeta, s1) \<Rightarrow> (Inr imageMeta, s1))"

definition GetImageByChecksum :: "faults \<Rightarrow> ImageStore \<Rightarrow> string \<Rightarrow> (error + ImageMeta) \<times> ImageStore" where
  "GetImageByChecksum flt s checksum =
     (case coll_FindOne flt (FindOne_checksum checksum) (\<lambda>m. Checksum m = checksum) s of
        (Inl err, s1) \<Rightarrow>
          (if err = ErrNoDocuments then (Inl ErrImageNotFound, s1)
           else (Inl (Wrapped ''failed to get image by checksum'' err), s1))
      | (Inr imageMeta, s1) \<Rightarrow> (Inr imageMeta, s1))"

section \<open>Store\<close>

text \<open>
  \<open>StoreImageFromReader\<close>. The reader is the outcome of \<open>io.ReadAll\<close>: an error or the
  bytes. The result is Go's pair of the returned string and the returned error, with the
  store after the call. The \<open>defer uploadStream.Close()\<close> registered once the stream is
  open runs when the function returns, so on every later path the close is the last driver
  call, after \<open>InsertOne\<close> and after the compensating \<open>bucket.Delete\<close>; its error is
  dropped.
\<close>

definition StoreImageFromReader ::
  "env \<Rightarrow> faults \<Rightarrow> ImageStore \<Rightarrow> backend_err + bytes \<Rightarrow> string \<Rightarrow> string list \<Rightarrow>
   (string \<times> string) list \<Rightarrow> (string \<times> error option) \<times> ImageStore" where
  "StoreImageFromReader ev flt s reader filename tags metadata =
     (case reader of
        Inl err \<Rightarrow> (('''', Some (Wrapped ''failed to read image data'' err)), s)
      | Inr imageData \<Rightarrow>
          (let contentType = DetectContentType ev imageData in
           if \<not> isValidImageType contentType then (('''', Some ErrInvalidImageType), s)
           else
             (let checksum = sha256_hex ev imageData in
              case GetImageByChecksum flt s checksum of
                (Inr existing, s1) \<Rightarrow> ((ImageID existing, Some ErrImageAlreadyExists), s1)
              | (Inl _, s1) \<Rightarrow>
                  (let imageID = xid_New ev; gridfsID = NewObjectID ev in
                   case bucket_OpenUploadStreamWithID flt gridfsID filename s1 of
                     (Inl err, s2) \<Rightarrow>
                       (('''', Some (Wrapped ''failed to open upload stream'' err)), s2)
                   | (Inr uploadStream0, s2) \<Rightarrow>
                       (case uploadStream_Write flt uploadStream0 imageData s2 of
                          ((Some err, uploadStream), s3) \<Rightarrow>
                            (('''', Some (Wrapped ''failed to write to GridFS'' err)),
                             snd (uploadStream_Close flt uploadStream s3))
                        | ((None, uploadStream), s3) \<Rightarrow>
                            (let now = time_Now ev;
                                 imageMeta = \<lparr>ImageID = imageID, GridFSID = gridfsID,
                                   OriginalName = filename, ContentType = contentType,
                                   Size = int (length imageData), Checksum = checksum,
                                   Tags = tags, Metadata = metadata,
                                   CreatedAt = now, UpdatedAt = now\<rparr>
                             in case coll_InsertOne flt imageMeta s3 of
                                  (Some err, s4) \<Rightarrow>
                                    (let s5 = snd (bucket_Delete flt gridfsID s4) in
                                     (('''', Some (Wrapped ''failed to save metadata'' err)),
                                      snd (uploadStream_Close flt uploadStream s5)))
                                | (None, s4) \<Rightarrow>
                                    ((imageID, None),
                                     snd (uploadStream_Close flt uploadStream s4))))))))"

section \<open>Retrieve\<close>

definition GetImageData ::
  "faults \<Rightarrow> ImageStore \<Rightarrow> string \<Rightarrow> (error + bytes \<times> ImageMeta) \<times> ImageStore" where
  "GetImageData flt s imageID =
     (case GetImageMeta flt s imageID of
        (Inl err, s1) \<Rightarrow> (Inl err, s1)
      | (Inr imageMeta, s1) \<Rightarrow>
          (case bucket_OpenDownloadStream flt (GridFSID imageMeta) s1 of
             (Inl err, s2) \<Rightarrow> (Inl (Wrapped ''failed to open download stream'' err), s2)
           | (Inr downloadStream, s2) \<Rightarrow> (Inr (downloadStream, imageMeta), s2)))"

section \<open>Delete\<close>


section \<open>List\<close>

text \<open>The loop over the cursor: a document that fails to decode ends the listing.\<close>

fun cursor_loop :: "faults \<Rightarrow> ImageMeta list \<Rightarrow> ImageMeta list \<Rightarrow> error + ImageMeta list" where
  "cursor_loop flt [] images =
     (case flt Cursor_Err of
        Some err \<Rightarrow> Inl (Wrapped ''cursor error'' err)
      | None \<Rightarrow> Inr images)"
| "cursor_loop flt (doc # docs) images =
     (case flt (Cursor_Decode_meta (ImageID doc)) of
        Some err \<Rightarrow> Inl (Wrapped ''failed to decode image metadata'' err)
      | None \<Rightarrow> cursor_loop flt docs (images @ [doc]))"

definition ListImages ::
  "faults \<Rightarrow> ImageStore \<Rightarrow> string list \<Rightarrow> int \<Rightarrow> int \<Rightarrow> (error + ImageMeta list) \<times> ImageStore" where
  "ListImages flt s tags limit offset =
     (let tagsIn = (if length tags > 0 then Some tags else None);
          optLimit = (if limit > 0 then Some limit else None);
          optSkip = (if offset > 0 then Some offset else None)
      in case coll_Find flt tagsIn optLimit optSkip s of
           (Inl err, s1) \<Rightarrow> (Inl (Wrapped ''failed to find images'' err), s1)
         | (Inr cursor, s1) \<Rightarrow> (cursor_loop flt cursor [], s1))"

section \<open>Update\<close>

definition UpdateImageTags ::
  "env \<Rightarrow> faults \<Rightarrow> ImageStore \<Rightarrow> string \<Rightarrow> string list \<Rightarrow> error option \<times> ImageStore" where
  "UpdateImageTags ev flt s imageID tags =
     (let update = (\<lambda>m. m\<lparr>Tags := tags, UpdatedAt := time_Now ev\<rparr>)
      in case coll_UpdateOne flt imageID update s of
           (Inl err, s1) \<Rightarrow> (Some (Wrapped ''failed to update tags'' err), s1)
         | (Inr matchedCount, s1) \<Rightarrow>
             (if matchedCount = 0 then (Some ErrImageNotFound, s1) else (None, s1)))"

definition UpdateImageMetadata ::
  "env \<Rightarrow> faults \<Rightarrow> ImageStore \<Rightarrow> string \<Rightarrow> (string \<times> string) list \<Rightarrow> error option \<times> ImageStore" where
  "UpdateImageMetadata ev flt s imageID metadata =
     (let update = (\<lambda>m. m\<lparr>Metadata := metadata, UpdatedAt := time_Now ev\<rparr>)
      in case coll_UpdateOne flt imageID update s of
           (Inl err, s1) \<Rightarrow> (Some (Wrapped ''failed to update metadata'' err), s1)
         | (Inr matchedCount, s1) \<Rightarrow>
             (if matchedCount = 0 then (Some ErrImageNotFound, s1) else (None, s1)))"

section \<open>Reconciliation\<close>

text \<open>
  The loop of \<open>CleanupOrphanedFiles\<close> over the cursor of bucket files. A file that fails to
  decode and a count that fails are skipped (\<open>continue\<close>); a failed delete is logged and
  not counted.
\<close>

fun cleanup_loop :: "faults \<Rightarrow> object_id list \<Rightarrow> int \<Rightarrow> ImageStore \<Rightarrow> int \<times> ImageStore" where
  "cleanup_loop flt [] orphanedCount s = (orphanedCount, s)"
| "cleanup_loop flt (fileID # files) orphanedCount s =
     (case flt (Cursor_Decode_file fileID) of
        Some _ \<Rightarrow> cleanup_loop flt files orphanedCount s
      | None \<Rightarrow>
          (case coll_CountDocuments flt fileID s of
             (Inl _, s1) \<Rightarrow> cleanup_loop flt files orphanedCount s1
           | (Inr n, s1) \<Rightarrow>
               (if n = 0
                then (case bucket_Delete flt fileID s1 of
                        (Some _, s2) \<Rightarrow> cleanup_loop flt files orphanedCount s2
                      | (None, s2) \<Rightarrow> cleanup_loop flt files (orphanedCount + 1) s2)
                else cleanup_loop flt files orphanedCount s1)))"

definition CleanupOrphanedFiles :: "faults \<Rightarrow> ImageStore \<Rightarrow> (int \<times> error option) \<times> ImageStore" where
  "CleanupOrphanedFiles flt s =
     (case bucket_Find flt s of
        (Inl err, s1) \<Rightarrow> ((0, Some (Wrapped ''failed to list GridFS files'' err)), s1)
      | (Inr gridfsFiles, s1) \<Rightarrow>
          (case cleanup_loop flt gridfsFiles 0 s1 of
             (orphanedCount, s2) \<Rightarrow> ((orphanedCount, None), s2)))"

section \<open>Auxiliary notions for the statements\<close>

text \<open>
  The document a store call inserts (the \<open>imageMeta\<close> literal of \<open>StoreImageFromReader\<close>), and
  the fields of a document that an update of the tags, or of the custom metadata, must leave
  as they are.
\<close>

definition new_meta ::
  "env \<Rightarrow> bytes \<Rightarrow> string \<Rightarrow> string list \<Rightarrow> (string \<times> string) list \<Rightarrow> ImageMeta" where
  "new_meta ev imageData filename tags metadata =
     \<lparr>ImageID = xid_New ev, GridFSID = NewObjectID ev, OriginalName = filename,
      ContentType = DetectContentType ev imageData, Size = int (length imageData),
      Checksum = sha256_hex ev imageData, Tags = tags, Metadata = metadata,
      CreatedAt = time_Now ev, UpdatedAt = time_Now ev\<rparr>"

definition frame_of_tags ::
  "ImageMeta \<Rightarrow> string \<times> object_id \<times> string \<times> string \<times> int \<times> string \<times> (string \<times> string) list \<times> time" where
  "frame_of_tags r =
     (ImageID r, GridFSID r, OriginalName r, ContentType r, Size r, Checksum r, Metadata r,
      CreatedAt r)"

definition frame_of_metadata ::
  "ImageMeta \<Rightarrow> string \<times> object_id \<times> string \<times> string \<times> int \<times> string \<times> string list \<times> time" where
  "frame_of_metadata r =
     (ImageID r, GridFSID r, OriginalName r, ContentType r, Size r, Checksum r, Tags r,
      CreatedAt r)"

text \<open>
  For the sweep: a key is referenced when some document has it as its \<open>GridFSID\<close>; the
  sweep removes a key when the file decodes, the count succeeds and is zero, and the delete
  succeeds.
\<close>

definition referenced :: "ImageMeta list \<Rightarrow> object_id \<Rightarrow> bool" where
  "referenced docs k = (\<exists>m \<in> set docs. GridFSID m = k)"

definition swept :: "faults \<Rightarrow> ImageMeta list \<Rightarrow> object_id \<Rightarrow> bool" where
  "swept flt docs k =
     (flt (Cursor_Decode_file k) = None \<and> flt (CountDocuments_gridfsID k) = None \<and>
      \<not> referenced docs k \<and> flt (Bucket_Delete k) = None)"

text \<open>
  A sequence of store calls, each with its generated values, its backend behaviour and its
  arguments, that all return no error; the result is the store they leave.
\<close>

type_synonym store_request =
  "env \<times> faults \<times> bytes \<times> string \<times> string list \<times> (string \<times> string) list"

fun stores_succeed :: "store_request list \<Rightarrow> ImageStore \<Rightarrow> ImageStore option" where
  "stores_succeed [] s = Some s"
| "stores_succeed ((ev, flt, P, filename, tags, metadata) # rs) s =
     (case StoreImageFromReader ev flt s (Inr P) filename tags metadata of
        ((imageID, None), s') \<Rightarrow> stores_succeed rs s'
      | ((imageID, Some err), s') \<Rightarrow> None)"

text \<open>
  The store at the instant of a \<open>StoreImageFromReader\<close> call between the write to the
  upload stream and \<open>InsertOne\<close>: the driver calls issued so far are the lookup, the open
  and the write.
\<close>

definition store_cut_after_write :: "env \<Rightarrow> ImageStore \<Rightarrow> bytes \<Rightarrow> string \<Rightarrow> ImageStore" where
  "store_cut_after_write ev s P filename =
     snd (uploadStream_Write no_faults \<lparr>FileID = NewObjectID ev, buffered = []\<rparr> P
       (snd (bucket_OpenUploadStreamWithID no_faults (NewObjectID ev) filename
         (snd (GetImageByChecksum no_faults s (sha256_hex ev P))))))"

text \<open>A backend that fails exactly one call.\<close>

definition fail_on :: "call \<Rightarrow> backend_err \<Rightarrow> faults" where
  "fail_on c e = (\<lambda>c'. if c' = c then Some e else None)"

section \<open>Example values\<close>

text \<open>
  Concrete inputs on which the theorems below are instantiated: the eight bytes of the PNG
  signature, a two-byte text, a detector that knows the PNG signature, a digest that tells the
  two payloads apart, the values generated for a first and a second call, and a few stores.
\<close>

definition png_bytes :: bytes where
  "png_bytes = [0x89, 0x50, 0x4E, 0x47, 0x0D, 0x0A, 0x1A, 0x0A]"

definition txt_bytes :: bytes where
  "txt_bytes = [0x68, 0x69]"

definition toy_detect :: "bytes \<Rightarrow> string" where
  "toy_detect d = (if take 8 d = png_bytes then ''image/png'' else ''text/plain; charset=utf-8'')"

definition toy_digest :: "bytes \<Rightarrow> string" where
  "toy_digest d = (if d = png_bytes then ''d1'' else ''d0'')"

definition ev1 :: env where
  "ev1 = \<lparr>DetectContentType = toy_detect, sha256_hex = toy_digest, xid_New = ''img1'',
          NewObjectID = 1, time_Now = 100\<rparr>"

definition ev2 :: env where
  "ev2 = \<lparr>DetectContentType = toy_detect, sha256_hex = toy_digest, xid_New = ''img2'',
          NewObjectID = 2, time_Now = 200\<rparr>"

definition empty_store :: ImageStore where
  "empty_store = \<lparr>bucket = [], metaCollection = [], calls = []\<rparr>"

definition meta0 :: ImageMeta where
  "meta0 = \<lparr>ImageID = ''img0'', GridFSID = 7, OriginalName = ''old.png'',
            ContentType = ''image/png'', Size = 8, Checksum = ''d1'', Tags = [''x''],
            Metadata = [(''k'', ''v'')], CreatedAt = 50, UpdatedAt = 50\<rparr>"

definition store_img0 :: ImageStore where
  "store_img0 = \<lparr>bucket = [(7, png_bytes)], metaCollection = [meta0], calls = []\<rparr>"

definition store_dangling :: ImageStore where
  "store_dangling = \<lparr>bucket = [], metaCollection = [meta0], calls = []\<rparr>"

definition after_first_store :: ImageStore where
  "after_first_store =
     \<lparr>bucket = [(1, png_bytes)],
      metaCollection = [new_meta ev1 png_bytes ''a.png'' [''x''] []],
      calls = [FindOne_checksum ''d1'', OpenUploadStreamWithID 1 ''a.png'',
               UploadStream_Write 1, InsertOne ''img1'', UploadStream_Close 1]\<rparr>"

definition meta_a :: ImageMeta where
  "meta_a = \<lparr>ImageID = ''a'', GridFSID = 11, OriginalName = ''a.png'',
             ContentType = ''image/png'', Size = 8, Checksum = ''ca'', Tags = [''x''],
             Metadata = [], CreatedAt = 10, UpdatedAt = 10\<rparr>"

definition meta_b :: ImageMeta where
  "meta_b = \<lparr>ImageID = ''b'', GridFSID = 12, OriginalName = ''b.gif'',
             ContentType = ''image/gif'', Size = 2, Checksum = ''cb'', Tags = [''y''],
             Metadata = [], CreatedAt = 30, UpdatedAt = 30\<rparr>"

definition meta_c :: ImageMeta where
  "meta_c = \<lparr>ImageID = ''c'', GridFSID = 13, OriginalName = ''c.png'',
             ContentType = ''image/png'', Size = 8, Checksum = ''cc'', Tags = [''z'', ''x''],
             Metadata = [], CreatedAt = 20, UpdatedAt = 25\<rparr>"

definition store_three :: ImageStore where
  "store_three =
     \<lparr>bucket = [(11, png_bytes), (12, txt_bytes), (13, png_bytes)],
      metaCollection = [meta_a, meta_b, meta_c], calls = []\<rparr>"

definition store_orphans :: ImageStore where
  "store_orphans =
     \<lparr>bucket = [(20, txt_bytes), (7, png_bytes), (21, txt_bytes), (22, png_bytes)],
      metaCollection = [meta0], calls = []\<rparr>"

section \<open>Properties\<close>

lemmas prims = issue_def coll_FindOne_def coll_InsertOne_def coll_DeleteOne_def
  coll_UpdateOne_def coll_CountDocuments_def bucket_OpenUploadStreamWithID_def
  uploadStream_Write_def uploadStream_Close_def bucket_Delete_def
  bucket_OpenDownloadStream_def bucket_Find_def coll_Find_def

lemmas examples = png_bytes_def txt_bytes_def toy_detect_def toy_digest_def ev1_def ev2_def
  empty_store_def no_faults_def isValidImageType_def validTypes_def fail_on_def
  meta0_def store_img0_def store_dangling_def after_first_store_def new_meta_def
  meta_a_def meta_b_def meta_c_def store_three_def store_orphans_def

subsection \<open>Lists\<close>

lemma find_append:
  "find P (xs @ ys) = (case find P xs of None \<Rightarrow> find P ys | Some x \<Rightarrow> Some x)"
  by (induction xs) auto

lemma find_Some_ex: "find P xs = Some m \<Longrightarrow> \<exists>x \<in> set xs. P x"
  by (induction xs) (auto split: if_splits)

lemma update_first_split:
  "find P xs = Some m \<Longrightarrow>
     \<exists>ys zs. xs = ys @ m # zs \<and> (\<forall>y \<in> set ys. \<not> P y) \<and> update_first P f xs = ys @ f m # zs"
proof (induction xs)
  case Nil
  then show ?case by simp
next
  case (Cons x xs)
  show ?case
  proof (cases "P x")
    case True
    with Cons.prems have "x = m" by simp
    with True show ?thesis by (intro exI[of _ "[]"] exI[of _ xs]) simp
  next
    case False
    with Cons.prems have "find P xs = Some m" by simp
    from Cons.IH[OF this] obtain ys zs where
      "xs = ys @ m # zs" "\<forall>y \<in> set ys. \<not> P y" "update_first P f xs = ys @ f m # zs"
      by blast
    with False show ?thesis
      by (intro exI[of _ "x # ys"] exI[of _ zs]) simp
  qed
qed

lemma update_first_frame:
  "(\<And>x. g (f x) = g x) \<Longrightarrow> map g (update_first P f xs) = map g xs"
  by (induction xs) auto



lemma find_Some_holds: "find P xs = Some m \<Longrightarrow> P m"
  by (induction xs) (auto split: if_splits)

subsection \<open>The paths of a store call\<close>

lemma store_existing:
  assumes "isValidImageType (DetectContentType ev P)"
      and "flt (FindOne_checksum (sha256_hex ev P)) = None"
      and "find (\<lambda>m. Checksum m = sha256_hex ev P) (metaCollection s) = Some m"
  shows "StoreImageFromReader ev flt s (Inr P) filename tags metadata =
           ((ImageID m, Some ErrImageAlreadyExists), issue (FindOne_checksum (sha256_hex ev P)) s)"
  using assms
  by (simp add: StoreImageFromReader_def GetImageByChecksum_def coll_FindOne_def Let_def)

lemma store_lookup_miss:
  assumes "flt (FindOne_checksum c) \<noteq> None \<or> find (\<lambda>m. Checksum m = c) (metaCollection s) = None"
  shows "\<exists>e. GetImageByChecksum flt s c = (Inl e, issue (FindOne_checksum c) s)"
  using assms by (auto simp add: GetImageByChecksum_def coll_FindOne_def split: option.splits)

lemma store_fresh_ok:
  assumes "isValidImageType (DetectContentType ev P)"
      and "flt (FindOne_checksum (sha256_hex ev P)) \<noteq> None \<or>
           find (\<lambda>m. Checksum m = sha256_hex ev P) (metaCollection s) = None"
      and "flt (OpenUploadStreamWithID (NewObjectID ev) filename) = None"
      and "flt (UploadStream_Write (NewObjectID ev)) = None"
      and "flt (InsertOne (xid_New ev)) = None"
  shows "StoreImageFromReader ev flt s (Inr P) filename tags metadata =
           ((xid_New ev, None),
            \<lparr>bucket = (if flt (UploadStream_Close (NewObjectID ev)) = None
                       then bucket s @ [(NewObjectID ev, P)] else bucket s),
             metaCollection = metaCollection s @ [new_meta ev P filename tags metadata],
             calls = calls s @ [FindOne_checksum (sha256_hex ev P),
                       OpenUploadStreamWithID (NewObjectID ev) filename,
                       UploadStream_Write (NewObjectID ev), InsertOne (xid_New ev),
                       UploadStream_Close (NewObjectID ev)]\<rparr>)"
proof -
  from assms(2) store_lookup_miss[of flt "sha256_hex ev P" s] obtain e where
    "GetImageByChecksum flt s (sha256_hex ev P) =
       (Inl e, issue (FindOne_checksum (sha256_hex ev P)) s)"
    by blast
  then show ?thesis
    using assms(1,3,4,5)
    by (auto simp add: StoreImageFromReader_def Let_def new_meta_def issue_def coll_InsertOne_def
        bucket_OpenUploadStreamWithID_def uploadStream_Write_def uploadStream_Close_def
        split: option.splits)
qed

lemma store_insert_fails:
  assumes "isValidImageType (DetectContentType ev P)"
      and "flt (FindOne_checksum (sha256_hex ev P)) \<noteq> None \<or>
           find (\<lambda>m. Checksum m = sha256_hex ev P) (metaCollection s) = None"
      and "flt (OpenUploadStreamWithID (NewObjectID ev) filename) = None"
      and "flt (UploadStream_Write (NewObjectID ev)) = None"
      and "flt (InsertOne (xid_New ev)) = Some e"
  shows "StoreImageFromReader ev flt s (Inr P) filename tags metadata =
           (('''', Some (Wrapped ''failed to save metadata'' e)),
            \<lparr>bucket =
               (if flt (Bucket_Delete (NewObjectID ev)) = None
                then filter (\<lambda>kv. fst kv \<noteq> NewObjectID ev) (bucket s) else bucket s) @
               (if flt (UploadStream_Close (NewObjectID ev)) = None
                then [(NewObjectID ev, P)] else []),
             metaCollection = metaCollection s,
             calls = calls s @ [FindOne_checksum (sha256_hex ev P),
                       OpenUploadStreamWithID (NewObjectID ev) filename,
                       UploadStream_Write (NewObjectID ev), InsertOne (xid_New ev),
                       Bucket_Delete (NewObjectID ev),
                       UploadStream_Close (NewObjectID ev)]\<rparr>)"
proof -
  from assms(2) store_lookup_miss[of flt "sha256_hex ev P" s] obtain e0 where
    "GetImageByChecksum flt s (sha256_hex ev P) =
       (Inl e0, issue (FindOne_checksum (sha256_hex ev P)) s)"
    by blast
  moreover have "filter (\<lambda>kv. fst kv \<noteq> NewObjectID ev) (bucket s) = bucket s"
    if "NewObjectID ev \<notin> fst ` set (bucket s)"
    using that by (force simp add: filter_id_conv)
  ultimately show ?thesis
    using assms(1,3,4,5)
    by (auto simp add: StoreImageFromReader_def Let_def issue_def coll_InsertOne_def
        bucket_OpenUploadStreamWithID_def uploadStream_Write_def uploadStream_Close_def
        bucket_Delete_def split: option.splits)
qed

lemma store_ok_cases:
  assumes "StoreImageFromReader ev flt s (Inr P) filename tags metadata = ((id1, e1), s1)"
      and "e1 = None \<or> e1 = Some ErrImageAlreadyExists"
      and "flt (FindOne_checksum (sha256_hex ev P)) = None"
  shows "isValidImageType (DetectContentType ev P) \<and>
         find (\<lambda>m. Checksum m = sha256_hex ev P) (metaCollection s1) \<noteq> None \<and>
         (\<forall>m. find (\<lambda>m. Checksum m = sha256_hex ev P) (metaCollection s1) = Some m \<longrightarrow>
              ImageID m = id1)"
  using assms
  by (auto simp add: StoreImageFromReader_def GetImageByChecksum_def prims Let_def find_append
      split: option.splits sum.splits prod.splits if_splits)

subsection \<open>The media-type gate\<close>

text \<open>
  C6. A store call whose bytes have a detected media type outside the allow-list fails with
  \<open>ErrInvalidImageType\<close> and an empty identifier; the store is returned as it was: bucket and
  collection unchanged and no driver call issued (no blob write, no lookup by checksum, no
  insert), whatever the backend would have done and whatever file name, tags and metadata
  the caller supplied. The media type is the one detected from the bytes: every document a
  store call adds carries the detected type as its \<open>ContentType\<close>.
\<close>

theorem store_invalid_type_no_effect:
  "(\<not> isValidImageType (DetectContentType ev imageData) \<longrightarrow>
      StoreImageFromReader ev flt s (Inr imageData) filename tags metadata =
        (('''', Some ErrInvalidImageType), s)) \<and>
   (\<forall>m \<in> set (metaCollection
        (snd (StoreImageFromReader ev flt s (Inr imageData) filename tags metadata))).
      m \<in> set (metaCollection s) \<or> ContentType m = DetectContentType ev imageData)"
  by (auto simp add: StoreImageFromReader_def GetImageByChecksum_def prims Let_def
      split: option.splits sum.splits prod.splits if_splits)

theorem store_invalid_type_no_effect_witness:
  "\<not> isValidImageType (DetectContentType ev1 txt_bytes) \<and>
   StoreImageFromReader ev1 no_faults empty_store (Inr txt_bytes) ''a.png'' [''x'']
       [(''contentType'', ''image/png'')] =
     (('''', Some ErrInvalidImageType), empty_store) \<and>
   (\<exists>m \<in> set (metaCollection (snd (StoreImageFromReader ev1 no_faults empty_store
        (Inr png_bytes) ''a.txt'' [] [(''contentType'', ''text/plain'')]))).
      m \<notin> set (metaCollection empty_store) \<and> ContentType m = ''image/png'')"
  using store_invalid_type_no_effect [of ev1 txt_bytes no_faults empty_store "''a.png''"
      "[''x'']" "[(''contentType'', ''image/png'')]"]
    store_invalid_type_no_effect [of ev1 png_bytes no_faults empty_store "''a.txt''"
      "[]" "[(''contentType'', ''text/plain'')]"]
  by (simp add: examples StoreImageFromReader_def GetImageByChecksum_def prims Let_def)

subsection \<open>Storing the same bytes twice\<close>

text \<open>
  C1, as stated for every byte payload, fails on the code: the two bytes of
  \<open>txt_bytes\<close> are not an allowed image, so both store calls stop at the media-type gate;
  the second call returns the empty identifier with \<open>ErrInvalidImageType\<close>, not
  \<open>ErrImageAlreadyExists\<close>, and nothing has been stored.
\<close>

theorem store_twice_counterexample:
  "StoreImageFromReader ev1 no_faults empty_store (Inr txt_bytes) ''a.txt'' [] [] =
     (('''', Some ErrInvalidImageType), empty_store) \<and>
   StoreImageFromReader ev2 no_faults empty_store (Inr txt_bytes) ''a.txt'' [] [] =
     (('''', Some ErrInvalidImageType), empty_store) \<and>
   snd (fst (StoreImageFromReader ev2 no_faults empty_store (Inr txt_bytes) ''a.txt'' [] [])) \<noteq>
     Some ErrImageAlreadyExists"
  by (simp add: examples StoreImageFromReader_def)

text \<open>
  C1, amended. For a payload \<open>P\<close> whose detected media type is in the allow-list, a store
  call on a backend that fails no call returns an identifier, with no error or with
  \<open>ErrImageAlreadyExists\<close>. And whenever a store call of \<open>P\<close> has returned the
  identifier \<open>id1\<close> in one of these two ways, and the backend answers the lookup by
  checksum in both calls, a second call with the same bytes in the store the first call
  left, with any file name, tags, metadata and any newly generated identifiers, returns
  \<open>id1\<close> paired with \<open>ErrImageAlreadyExists\<close>, and changes neither the bucket nor the
  collection: it only issues the lookup.
\<close>

theorem store_twice_same_id:
  assumes l1: "flt1 (FindOne_checksum (sha256_hex ev P)) = None"
      and l2: "flt2 (FindOne_checksum (sha256_hex ev P)) = None"
      and first: "StoreImageFromReader ev flt1 s (Inr P) f1 t1 m1 = ((id1, e1), s1)"
  shows "(isValidImageType (DetectContentType ev P) \<and> flt1 = no_faults \<longrightarrow>
            e1 = None \<or> e1 = Some ErrImageAlreadyExists) \<and>
         (e1 = None \<or> e1 = Some ErrImageAlreadyExists \<longrightarrow>
            StoreImageFromReader (ev\<lparr>xid_New := x2, NewObjectID := g2, time_Now := n2\<rparr>) flt2 s1
                (Inr P) f2 t2 m2 =
              ((id1, Some ErrImageAlreadyExists), issue (FindOne_checksum (sha256_hex ev P)) s1))"
proof (intro conjI impI)
  assume "isValidImageType (DetectContentType ev P) \<and> flt1 = no_faults"
  with first show "e1 = None \<or> e1 = Some ErrImageAlreadyExists"
    by (auto simp add: StoreImageFromReader_def GetImageByChecksum_def prims Let_def no_faults_def
        split: option.splits sum.splits prod.splits if_splits)
next
  assume ok: "e1 = None \<or> e1 = Some ErrImageAlreadyExists"
  let ?ev2 = "ev\<lparr>xid_New := x2, NewObjectID := g2, time_Now := n2\<rparr>"
  from store_ok_cases[OF first ok l1] obtain m where
    v: "isValidImageType (DetectContentType ev P)" and
    f: "find (\<lambda>m. Checksum m = sha256_hex ev P) (metaCollection s1) = Some m" and
    i: "ImageID m = id1"
    by auto
  have "StoreImageFromReader ?ev2 flt2 s1 (Inr P) f2 t2 m2 =
          ((ImageID m, Some ErrImageAlreadyExists), issue (FindOne_checksum (sha256_hex ?ev2 P)) s1)"
    using v l2 f by (intro store_existing) simp_all
  then show "StoreImageFromReader ?ev2 flt2 s1 (Inr P) f2 t2 m2 =
          ((id1, Some ErrImageAlreadyExists), issue (FindOne_checksum (sha256_hex ev P)) s1)"
    using i by simp
qed

theorem store_twice_same_id_witness:
  "StoreImageFromReader ev1 no_faults empty_store (Inr png_bytes) ''a.png'' [''x''] [] =
     ((''img1'', None), after_first_store) \<and>
   StoreImageFromReader ev2 no_faults after_first_store (Inr png_bytes) ''b.png'' [] [] =
     ((''img1'', Some ErrImageAlreadyExists), issue (FindOne_checksum ''d1'') after_first_store)"
proof -
  have first: "StoreImageFromReader ev1 no_faults empty_store (Inr png_bytes) ''a.png'' [''x''] [] =
      ((''img1'', None), after_first_store)"
    by (simp add: examples StoreImageFromReader_def GetImageByChecksum_def prims Let_def)
  have ev2: "ev2 = ev1\<lparr>xid_New := ''img2'', NewObjectID := 2, time_Now := 200\<rparr>"
    by (simp add: ev1_def ev2_def)
  have c: "sha256_hex ev1 png_bytes = ''d1''"
    by (simp add: examples)
  have l: "no_faults (FindOne_checksum (sha256_hex ev1 png_bytes)) = None"
    by (simp add: no_faults_def)
  from store_twice_same_id[where ?flt1.0 = no_faults and ?flt2.0 = no_faults, OF l l first,
      where ?x2.0 = "''img2''" and ?g2.0 = 2 and ?n2.0 = 200 and ?f2.0 = "''b.png''"
        and ?t2.0 = "[]" and ?m2.0 = "[]"]
  show ?thesis using first by (simp add: ev2 c)
qed

subsection \<open>Failure of the metadata insert\<close>

text \<open>
  C2. What the code does in every store call whose \<open>InsertOne\<close> fails (the payload is an
  allowed image, the lookup by checksum found nothing or failed, the stream was opened and
  written). It returns the empty identifier with the insert error wrapped as
  \<open>failed to save metadata\<close>, whatever the compensating delete and the close do; the
  collection is unchanged; and it issues \<open>bucket.Delete\<close> on the new key after the insert
  and before the deferred close. So the delete runs while the file does not exist yet: it
  can only remove what the bucket held under that key before the call, and the close that
  follows, when it succeeds, creates the file. The blob that the delete was meant to clean up
  is in the bucket after the call, with no document referencing it through this call.
\<close>

theorem store_insert_failure_leaves_blob:
  assumes "isValidImageType (DetectContentType ev P)"
      and "flt (FindOne_checksum (sha256_hex ev P)) \<noteq> None \<or>
           find (\<lambda>m. Checksum m = sha256_hex ev P) (metaCollection s) = None"
      and "flt (OpenUploadStreamWithID (NewObjectID ev) filename) = None"
      and "flt (UploadStream_Write (NewObjectID ev)) = None"
      and "flt (InsertOne (xid_New ev)) = Some e"
  shows "fst (StoreImageFromReader ev flt s (Inr P) filename tags metadata) =
           ('''', Some (Wrapped ''failed to save metadata'' e)) \<and>
         metaCollection (snd (StoreImageFromReader ev flt s (Inr P) filename tags metadata)) =
           metaCollection s \<and>
         calls (snd (StoreImageFromReader ev flt s (Inr P) filename tags metadata)) =
           calls s @ [FindOne_checksum (sha256_hex ev P),
                      OpenUploadStreamWithID (NewObjectID ev) filename,
                      UploadStream_Write (NewObjectID ev), InsertOne (xid_New ev),
                      Bucket_Delete (NewObjectID ev), UploadStream_Close (NewObjectID ev)] \<and>
         bucket (snd (StoreImageFromReader ev flt s (Inr P) filename tags metadata)) =
           (if flt (Bucket_Delete (NewObjectID ev)) = None
            then filter (\<lambda>kv. fst kv \<noteq> NewObjectID ev) (bucket s) else bucket s) @
           (if flt (UploadStream_Close (NewObjectID ev)) = None
            then [(NewObjectID ev, P)] else []) \<and>
         (flt (UploadStream_Close (NewObjectID ev)) = None \<longrightarrow>
            (NewObjectID ev, P) \<in>
              set (bucket (snd (StoreImageFromReader ev flt s (Inr P) filename tags metadata))))"
  using store_insert_fails[OF assms, of tags metadata] by simp

theorem store_insert_failure_leaves_blob_witness:
  "fst (StoreImageFromReader ev1 (fail_on (InsertOne ''img1'') (IOErr ''insert refused''))
          empty_store (Inr png_bytes) ''a.png'' [''x''] []) =
     ('''', Some (Wrapped ''failed to save metadata'' (IOErr ''insert refused''))) \<and>
   metaCollection (snd (StoreImageFromReader ev1
          (fail_on (InsertOne ''img1'') (IOErr ''insert refused''))
          empty_store (Inr png_bytes) ''a.png'' [''x''] [])) = [] \<and>
   calls (snd (StoreImageFromReader ev1
          (fail_on (InsertOne ''img1'') (IOErr ''insert refused''))
          empty_store (Inr png_bytes) ''a.png'' [''x''] [])) =
     [FindOne_checksum ''d1'', OpenUploadStreamWithID 1 ''a.png'', UploadStream_Write 1,
      InsertOne ''img1'', Bucket_Delete 1, UploadStream_Close 1] \<and>
   bucket (snd (StoreImageFromReader ev1
          (fail_on (InsertOne ''img1'') (IOErr ''insert refused''))
          empty_store (Inr png_bytes) ''a.png'' [''x''] [])) = [(1, png_bytes)]"
  using store_insert_failure_leaves_blob[where ev = ev1 and P = png_bytes
      and flt = "fail_on (InsertOne ''img1'') (IOErr ''insert refused'')"
      and s = empty_store and filename = "''a.png''" and e = "IOErr ''insert refused''"
      and tags = "[''x'']" and metadata = "[]"]
  by (simp add: examples)

text \<open>
  C4, as stated, fails on the code. In the store \<open>store_img0\<close> the image
  \<open>img0\<close> has the checksum of the payload; the lookup by checksum times out, so the store
  goes on, and the insert is refused with a duplicate-key error. The statement asks for
  \<open>img0\<close> with \<open>ErrImageAlreadyExists\<close>; the code returns the empty identifier and the
  wrapped insert error.
\<close>

theorem store_duplicate_key_counterexample:
  "fst (StoreImageFromReader ev1
          ((fail_on (FindOne_checksum ''d1'') (IOErr ''timeout''))
             (InsertOne ''img1'' := Some DuplicateKey))
          store_img0 (Inr png_bytes) ''a.png'' [] []) =
     ('''', Some (Wrapped ''failed to save metadata'' DuplicateKey)) \<and>
   fst (StoreImageFromReader ev1
          ((fail_on (FindOne_checksum ''d1'') (IOErr ''timeout''))
             (InsertOne ''img1'' := Some DuplicateKey))
          store_img0 (Inr png_bytes) ''a.png'' [] []) \<noteq>
     (''img0'', Some ErrImageAlreadyExists)"
  by (simp add: examples StoreImageFromReader_def GetImageByChecksum_def prims Let_def)

text \<open>
  C4, amended. When \<open>InsertOne\<close> fails with a duplicate-key error, the store treats it as
  any other insert failure: it returns the empty identifier with the duplicate-key error
  wrapped as \<open>failed to save metadata\<close>, never \<open>ErrImageAlreadyExists\<close>, after issuing the
  compensating delete of the blob; the collection is unchanged.
\<close>

theorem store_duplicate_key_is_fatal:
  assumes "isValidImageType (DetectContentType ev P)"
      and "flt (FindOne_checksum (sha256_hex ev P)) \<noteq> None \<or>
           find (\<lambda>m. Checksum m = sha256_hex ev P) (metaCollection s) = None"
      and "flt (OpenUploadStreamWithID (NewObjectID ev) filename) = None"
      and "flt (UploadStream_Write (NewObjectID ev)) = None"
      and "flt (InsertOne (xid_New ev)) = Some DuplicateKey"
  shows "fst (StoreImageFromReader ev flt s (Inr P) filename tags metadata) =
           ('''', Some (Wrapped ''failed to save metadata'' DuplicateKey)) \<and>
         snd (fst (StoreImageFromReader ev flt s (Inr P) filename tags metadata)) \<noteq>
           Some ErrImageAlreadyExists \<and>
         Bucket_Delete (NewObjectID ev) \<in>
           set (calls (snd (StoreImageFromReader ev flt s (Inr P) filename tags metadata))) \<and>
         metaCollection (snd (StoreImageFromReader ev flt s (Inr P) filename tags metadata)) =
           metaCollection s"
  using store_insert_fails[OF assms, of tags metadata] by simp

theorem store_duplicate_key_is_fatal_witness:
  "fst (StoreImageFromReader ev1 (fail_on (InsertOne ''img1'') DuplicateKey)
          empty_store (Inr png_bytes) ''a.png'' [] []) =
     ('''', Some (Wrapped ''failed to save metadata'' DuplicateKey)) \<and>
   Bucket_Delete 1 \<in> set (calls (snd (StoreImageFromReader ev1
          (fail_on (InsertOne ''img1'') DuplicateKey) empty_store (Inr png_bytes) ''a.png'' [] []))) \<and>
   metaCollection (snd (StoreImageFromReader ev1 (fail_on (InsertOne ''img1'') DuplicateKey)
          empty_store (Inr png_bytes) ''a.png'' [] [])) = []"
  using store_duplicate_key_is_fatal[where ev = ev1 and P = png_bytes
      and flt = "fail_on (InsertOne ''img1'') DuplicateKey"
      and s = empty_store and filename = "''a.png''" and tags = "[]" and metadata = "[]"]
  by (simp add: examples)

subsection \<open>Failure of the duplicate check\<close>

text \<open>
  C10. A store call never returns the error of its lookup by checksum: neither
  \<open>ErrImageNotFound\<close> nor a wrapped \<open>failed to get image by checksum\<close>. In every store
  call of an allowed image whose lookup by checksum returns an error, be it that no document
  has the checksum or any error of the backend, the store goes on as if the content were
  absent: with the remaining calls succeeding it writes the blob, inserts a new document and
  returns the new identifier with no error; the blob is in the bucket when the deferred close
  succeeds, and is not when it fails, the close error being dropped. The number of documents
  with this checksum grows by one, so when the lookup failed in the backend while the
  collection already held the content, the collection holds two documents with the same
  checksum afterwards.
\<close>

theorem store_lookup_error_swallowed:
  assumes "isValidImageType (DetectContentType ev P)"
      and "fst (GetImageByChecksum flt s (sha256_hex ev P)) = Inl err"
      and "flt (OpenUploadStreamWithID (NewObjectID ev) filename) = None"
      and "flt (UploadStream_Write (NewObjectID ev)) = None"
      and "flt (InsertOne (xid_New ev)) = None"
  shows "snd (fst (StoreImageFromReader ev' flt' s' reader' filename' tags' metadata')) \<noteq>
           Some ErrImageNotFound \<and>
         snd (fst (StoreImageFromReader ev' flt' s' reader' filename' tags' metadata')) \<noteq>
           Some (Wrapped ''failed to get image by checksum'' e') \<and>
         fst (StoreImageFromReader ev flt s (Inr P) filename tags metadata) = (xid_New ev, None) \<and>
         bucket (snd (StoreImageFromReader ev flt s (Inr P) filename tags metadata)) =
           (if flt (UploadStream_Close (NewObjectID ev)) = None
            then bucket s @ [(NewObjectID ev, P)] else bucket s) \<and>
         metaCollection (snd (StoreImageFromReader ev flt s (Inr P) filename tags metadata)) =
           metaCollection s @ [new_meta ev P filename tags metadata] \<and>
         length (filter (\<lambda>m. Checksum m = sha256_hex ev P)
            (metaCollection (snd (StoreImageFromReader ev flt s (Inr P) filename tags metadata)))) =
           Suc (length (filter (\<lambda>m. Checksum m = sha256_hex ev P) (metaCollection s)))"
proof -
  have never: "snd (fst (StoreImageFromReader ev' flt' s' reader' filename' tags' metadata')) \<noteq>
           Some ErrImageNotFound \<and>
         snd (fst (StoreImageFromReader ev' flt' s' reader' filename' tags' metadata')) \<noteq>
           Some (Wrapped ''failed to get image by checksum'' e')"
    by (auto simp add: StoreImageFromReader_def Let_def
        split: option.splits sum.splits prod.splits if_splits)
  have "flt (FindOne_checksum (sha256_hex ev P)) \<noteq> None \<or>
        find (\<lambda>m. Checksum m = sha256_hex ev P) (metaCollection s) = None"
    using assms(2)
    by (auto simp add: GetImageByChecksum_def coll_FindOne_def split: option.splits)
  from store_fresh_ok[OF assms(1) this assms(3,4,5), of tags metadata] never
  show ?thesis by (simp add: new_meta_def)
qed

theorem store_lookup_error_swallowed_witness:
  "fst (GetImageByChecksum (fail_on (FindOne_checksum ''d1'') (IOErr ''timeout'')) store_img0
          (sha256_hex ev1 png_bytes)) =
     Inl (Wrapped ''failed to get image by checksum'' (IOErr ''timeout'')) \<and>
   fst (StoreImageFromReader ev1 (fail_on (FindOne_checksum ''d1'') (IOErr ''timeout''))
          store_img0 (Inr png_bytes) ''a.png'' [] []) = (''img1'', None) \<and>
   metaCollection (snd (StoreImageFromReader ev1
          (fail_on (FindOne_checksum ''d1'') (IOErr ''timeout''))
          store_img0 (Inr png_bytes) ''a.png'' [] [])) =
     [meta0, new_meta ev1 png_bytes ''a.png'' [] []] \<and>
   Checksum meta0 = Checksum (new_meta ev1 png_bytes ''a.png'' [] []) \<and>
   ImageID meta0 \<noteq> ImageID (new_meta ev1 png_bytes ''a.png'' [] [])"
  using store_lookup_error_swallowed[where ev = ev1 and P = png_bytes
      and flt = "fail_on (FindOne_checksum ''d1'') (IOErr ''timeout'')"
      and s = store_img0 and filename = "''a.png''"
      and err = "Wrapped ''failed to get image by checksum'' (IOErr ''timeout'')"
      and tags = "[]" and metadata = "[]"]
  by (simp add: examples GetImageByChecksum_def coll_FindOne_def)

subsection \<open>The sweep never touches the collection\<close>

lemma cleanup_loop_meta:
  "metaCollection (snd (cleanup_loop flt files n s)) = metaCollection s"
  by (induction flt files n s rule: cleanup_loop.induct)
     (auto simp add: coll_CountDocuments_def bucket_Delete_def issue_def
        split: option.splits sum.splits prod.splits if_splits)

lemma CleanupOrphanedFiles_meta:
  "metaCollection (snd (CleanupOrphanedFiles flt s)) = metaCollection s"
proof (cases "flt Bucket_Find")
  case None
  then show ?thesis
    using cleanup_loop_meta[of flt "map fst (bucket s)" 0 "issue Bucket_Find s"]
    by (auto simp add: CleanupOrphanedFiles_def bucket_Find_def issue_def split: prod.splits)
next
  case (Some e)
  then show ?thesis
    by (simp add: CleanupOrphanedFiles_def bucket_Find_def issue_def)
qed

subsection \<open>Reading an image whose blob is missing\<close>

text \<open>
  C7. When the collection holds a document for an image identifier and the bucket holds no
  blob under its key, \<open>GetImageData\<close> returns an error of its own: the bucket's
  \<open>ErrFileNotFound\<close> wrapped as \<open>failed to open download stream\<close>. It is not
  \<open>ErrImageNotFound\<close>, which is what the same read returns for an identifier with no
  document. The read changes neither the bucket nor the collection (it only issues the
  lookup and the open), and the sweep, with any backend behaviour, leaves the collection as
  it is: the document is not removed.
\<close>

theorem read_missing_blob:
  assumes "find (\<lambda>r. ImageID r = imageID) (metaCollection s) = Some m"
      and "GridFSID m \<notin> fst ` set (bucket s)"
      and "flt (FindOne_imageID imageID) = None"
      and "flt (OpenDownloadStream (GridFSID m)) = None"
  shows "GetImageData flt s imageID =
           (Inl (Wrapped ''failed to open download stream'' ErrFileNotFound),
            s\<lparr>calls := calls s @ [FindOne_imageID imageID, OpenDownloadStream (GridFSID m)]\<rparr>) \<and>
         fst (GetImageData flt s imageID) \<noteq> Inl ErrImageNotFound \<and>
         (find (\<lambda>r. ImageID r = other) (metaCollection s) = None \<and>
              flt (FindOne_imageID other) = None \<longrightarrow>
              fst (GetImageData flt s other) = Inl ErrImageNotFound) \<and>
         metaCollection (snd (CleanupOrphanedFiles flt' s)) = metaCollection s"
proof -
  have "map_of (bucket s) (GridFSID m) = None"
    using assms(2) by (simp add: map_of_eq_None_iff)
  then have 1: "GetImageData flt s imageID =
           (Inl (Wrapped ''failed to open download stream'' ErrFileNotFound),
            s\<lparr>calls := calls s @ [FindOne_imageID imageID, OpenDownloadStream (GridFSID m)]\<rparr>)"
    using assms(1,3,4)
    by (simp add: GetImageData_def GetImageMeta_def coll_FindOne_def
        bucket_OpenDownloadStream_def issue_def)
  have 2: "find (\<lambda>r. ImageID r = other) (metaCollection s) = None \<and>
              flt (FindOne_imageID other) = None \<longrightarrow>
              fst (GetImageData flt s other) = Inl ErrImageNotFound"
    by (simp add: GetImageData_def GetImageMeta_def coll_FindOne_def)
  show ?thesis
    using 1 2 CleanupOrphanedFiles_meta[of flt' s] by simp
qed

theorem read_missing_blob_witness:
  "GetImageData no_faults store_dangling ''img0'' =
     (Inl (Wrapped ''failed to open download stream'' ErrFileNotFound),
      store_dangling\<lparr>calls := [FindOne_imageID ''img0'', OpenDownloadStream 7]\<rparr>) \<and>
   fst (GetImageData no_faults store_dangling ''img9'') = Inl ErrImageNotFound \<and>
   metaCollection (snd (CleanupOrphanedFiles no_faults store_dangling)) = [meta0]"
  using read_missing_blob[where s = store_dangling and imageID = "''img0''" and m = meta0
      and flt = no_faults and flt' = no_faults and other = "''img9''"]
  by (simp add: examples)

subsection \<open>Delete\<close>




subsection \<open>Update\<close>

lemma UpdateImageTags_found:
  assumes "flt (UpdateOne imageID) = None"
      and "find (\<lambda>r. ImageID r = imageID) (metaCollection s) = Some m"
  shows "UpdateImageTags ev flt s imageID tags =
           (None, s\<lparr>metaCollection := update_first (\<lambda>r. ImageID r = imageID)
                        (\<lambda>r. r\<lparr>Tags := tags, UpdatedAt := time_Now ev\<rparr>) (metaCollection s),
                    calls := calls s @ [UpdateOne imageID]\<rparr>)"
proof -
  have "\<exists>r \<in> set (metaCollection s). ImageID r = imageID"
    using assms(2) by (rule find_Some_ex)
  then show ?thesis
    using assms(1) by (simp add: UpdateImageTags_def coll_UpdateOne_def issue_def)
qed

lemma UpdateImageMetadata_found:
  assumes "flt (UpdateOne imageID) = None"
      and "find (\<lambda>r. ImageID r = imageID) (metaCollection s) = Some m"
  shows "UpdateImageMetadata ev flt s imageID metadata =
           (None, s\<lparr>metaCollection := update_first (\<lambda>r. ImageID r = imageID)
                        (\<lambda>r. r\<lparr>Metadata := metadata, UpdatedAt := time_Now ev\<rparr>) (metaCollection s),
                    calls := calls s @ [UpdateOne imageID]\<rparr>)"
proof -
  have "\<exists>r \<in> set (metaCollection s). ImageID r = imageID"
    using assms(2) by (rule find_Some_ex)
  then show ?thesis
    using assms(1) by (simp add: UpdateImageMetadata_def coll_UpdateOne_def issue_def)
qed

lemma Update_not_found:
  assumes "flt (UpdateOne imageID) = None"
      and "find (\<lambda>r. ImageID r = imageID) (metaCollection s) = None"
  shows "UpdateImageTags ev flt s imageID tags =
           (Some ErrImageNotFound, s\<lparr>calls := calls s @ [UpdateOne imageID]\<rparr>)"
    and "UpdateImageMetadata ev flt s imageID metadata =
           (Some ErrImageNotFound, s\<lparr>calls := calls s @ [UpdateOne imageID]\<rparr>)"
proof -
  have "\<not> (\<exists>r \<in> set (metaCollection s). ImageID r = imageID)"
    using assms(2) by (simp add: find_None_iff)
  then show "UpdateImageTags ev flt s imageID tags =
           (Some ErrImageNotFound, s\<lparr>calls := calls s @ [UpdateOne imageID]\<rparr>)"
    and "UpdateImageMetadata ev flt s imageID metadata =
           (Some ErrImageNotFound, s\<lparr>calls := calls s @ [UpdateOne imageID]\<rparr>)"
    using assms(1)
    by (simp_all add: UpdateImageTags_def UpdateImageMetadata_def coll_UpdateOne_def issue_def)
qed

text \<open>
  C9. An update of the tags, or of the custom metadata, of an image, with the update
  answered by the backend: if no document has the identifier, it returns
  \<open>ErrImageNotFound\<close> and changes neither the bucket nor the collection. If the document
  \<open>m\<close> is the first with the identifier, the update returns no error, the bucket is
  unchanged, and the collection is the old one with \<open>m\<close> alone replaced, in place, by \<open>m\<close>
  with the new tags (respectively the new metadata) and \<open>UpdatedAt\<close> set to the current
  time. Document by document, \<open>ImageID\<close>, \<open>GridFSID\<close>, \<open>OriginalName\<close>, \<open>ContentType\<close>,
  \<open>Size\<close>, \<open>Checksum\<close>, \<open>CreatedAt\<close> and the field not targeted are what they were.
\<close>

theorem update_frame:
  assumes "flt (UpdateOne imageID) = None"
  shows "(find (\<lambda>r. ImageID r = imageID) (metaCollection s) = None \<longrightarrow>
            UpdateImageTags ev flt s imageID tags =
              (Some ErrImageNotFound, s\<lparr>calls := calls s @ [UpdateOne imageID]\<rparr>) \<and>
            UpdateImageMetadata ev flt s imageID metadata =
              (Some ErrImageNotFound, s\<lparr>calls := calls s @ [UpdateOne imageID]\<rparr>)) \<and>
         (find (\<lambda>r. ImageID r = imageID) (metaCollection s) = Some m \<longrightarrow>
            fst (UpdateImageTags ev flt s imageID tags) = None \<and>
            bucket (snd (UpdateImageTags ev flt s imageID tags)) = bucket s \<and>
            map frame_of_tags (metaCollection (snd (UpdateImageTags ev flt s imageID tags))) =
              map frame_of_tags (metaCollection s) \<and>
            (\<exists>ys zs. metaCollection s = ys @ m # zs \<and> (\<forall>y \<in> set ys. ImageID y \<noteq> imageID) \<and>
               metaCollection (snd (UpdateImageTags ev flt s imageID tags)) =
                 ys @ m\<lparr>Tags := tags, UpdatedAt := time_Now ev\<rparr> # zs) \<and>
            fst (UpdateImageMetadata ev flt s imageID metadata) = None \<and>
            bucket (snd (UpdateImageMetadata ev flt s imageID metadata)) = bucket s \<and>
            map frame_of_metadata
                (metaCollection (snd (UpdateImageMetadata ev flt s imageID metadata))) =
              map frame_of_metadata (metaCollection s) \<and>
            (\<exists>ys zs. metaCollection s = ys @ m # zs \<and> (\<forall>y \<in> set ys. ImageID y \<noteq> imageID) \<and>
               metaCollection (snd (UpdateImageMetadata ev flt s imageID metadata)) =
                 ys @ m\<lparr>Metadata := metadata, UpdatedAt := time_Now ev\<rparr> # zs))"
proof (intro conjI impI)
  assume "find (\<lambda>r. ImageID r = imageID) (metaCollection s) = None"
  from Update_not_found(1)[where flt=flt, OF assms this]
    Update_not_found(2)[where flt=flt, OF assms this]
  show "UpdateImageTags ev flt s imageID tags =
          (Some ErrImageNotFound, s\<lparr>calls := calls s @ [UpdateOne imageID]\<rparr>)"
    and "UpdateImageMetadata ev flt s imageID metadata =
          (Some ErrImageNotFound, s\<lparr>calls := calls s @ [UpdateOne imageID]\<rparr>)"
    by simp_all
next
  assume f: "find (\<lambda>r. ImageID r = imageID) (metaCollection s) = Some m"
  note t = UpdateImageTags_found[where flt=flt and ev=ev and tags=tags, OF assms f]
  show "fst (UpdateImageTags ev flt s imageID tags) = None"
    and "bucket (snd (UpdateImageTags ev flt s imageID tags)) = bucket s"
    by (simp_all add: t)
  show "map frame_of_tags (metaCollection (snd (UpdateImageTags ev flt s imageID tags))) =
          map frame_of_tags (metaCollection s)"
    by (simp add: t update_first_frame frame_of_tags_def)
  show "\<exists>ys zs. metaCollection s = ys @ m # zs \<and> (\<forall>y \<in> set ys. ImageID y \<noteq> imageID) \<and>
               metaCollection (snd (UpdateImageTags ev flt s imageID tags)) =
                 ys @ m\<lparr>Tags := tags, UpdatedAt := time_Now ev\<rparr> # zs"
    using update_first_split[OF f, of "\<lambda>r. r\<lparr>Tags := tags, UpdatedAt := time_Now ev\<rparr>"]
    by (simp add: t)
next
  assume f: "find (\<lambda>r. ImageID r = imageID) (metaCollection s) = Some m"
  note t = UpdateImageMetadata_found[where flt=flt and ev=ev and metadata=metadata, OF assms f]
  show "fst (UpdateImageMetadata ev flt s imageID metadata) = None"
    and "bucket (snd (UpdateImageMetadata ev flt s imageID metadata)) = bucket s"
    by (simp_all add: t)
  show "map frame_of_metadata
          (metaCollection (snd (UpdateImageMetadata ev flt s imageID metadata))) =
          map frame_of_metadata (metaCollection s)"
    by (simp add: t update_first_frame frame_of_metadata_def)
  show "\<exists>ys zs. metaCollection s = ys @ m # zs \<and> (\<forall>y \<in> set ys. ImageID y \<noteq> imageID) \<and>
               metaCollection (snd (UpdateImageMetadata ev flt s imageID metadata)) =
                 ys @ m\<lparr>Metadata := metadata, UpdatedAt := time_Now ev\<rparr> # zs"
    using update_first_split[OF f, of "\<lambda>r. r\<lparr>Metadata := metadata, UpdatedAt := time_Now ev\<rparr>"]
    by (simp add: t)
qed

theorem update_frame_witness:
  "UpdateImageTags ev2 no_faults store_img0 ''img9'' [''y''] =
     (Some ErrImageNotFound, store_img0\<lparr>calls := [UpdateOne ''img9'']\<rparr>) \<and>
   fst (UpdateImageTags ev2 no_faults store_img0 ''img0'' [''y'']) = None \<and>
   map frame_of_tags (metaCollection (snd (UpdateImageTags ev2 no_faults store_img0 ''img0'' [''y'']))) =
     [frame_of_tags meta0] \<and>
   fst (UpdateImageMetadata ev2 no_faults store_img0 ''img0'' [(''a'', ''b'')]) = None \<and>
   map frame_of_metadata
     (metaCollection (snd (UpdateImageMetadata ev2 no_faults store_img0 ''img0'' [(''a'', ''b'')]))) =
     [frame_of_metadata meta0]"
  using update_frame[where flt = no_faults and s = store_img0 and imageID = "''img9''"
      and ev = ev2 and tags = "[''y'']" and metadata = "[(''a'', ''b'')]"]
    update_frame[where flt = no_faults and s = store_img0 and imageID = "''img0''"
      and ev = ev2 and tags = "[''y'']" and metadata = "[(''a'', ''b'')]" and m = meta0]
  by (simp add: examples)

subsection \<open>List\<close>

lemma cursor_loop_no_faults: "cursor_loop no_faults docs images = Inr (images @ docs)"
  by (induction docs arbitrary: images) (simp_all add: no_faults_def)

lemma matches_filter_Some:
  "matches_filter (Some tags) = (\<lambda>m. set (Tags m) \<inter> set tags \<noteq> {})"
  by (auto simp add: matches_filter_def fun_eq_iff)

lemma matches_filter_None: "matches_filter None = (\<lambda>m. True)"
  by (simp add: matches_filter_def fun_eq_iff)

lemma sorted_desc_sort_key:
  "sorted_wrt (\<lambda>a b. CreatedAt b \<le> CreatedAt a) (sort_key (\<lambda>m. - CreatedAt m) xs)"
proof -
  have "sorted (map (\<lambda>m. - CreatedAt m) (sort_key (\<lambda>m. - CreatedAt m) xs))"
    by (rule sorted_sort_key)
  then show ?thesis by (simp add: sorted_map)
qed

lemma ListImages_no_faults:
  "ListImages no_faults s tags limit offset =
     (Inr ((if limit > 0 then take (nat limit) else (\<lambda>xs. xs))
            ((if offset > 0 then drop (nat offset) else (\<lambda>xs. xs))
               (sort_key (\<lambda>m. - CreatedAt m)
                  (filter (\<lambda>m. tags = [] \<or> set (Tags m) \<inter> set tags \<noteq> {}) (metaCollection s))))),
      s\<lparr>calls := calls s @ [Find_meta (if length tags > 0 then Some tags else None)
                  (if limit > 0 then Some limit else None)
                  (if offset > 0 then Some offset else None)]\<rparr>)"
proof -
  have f: "no_faults c = None" for c
    by (simp add: no_faults_def)
  show ?thesis
    by (simp add: ListImages_def coll_Find_def Let_def f cursor_loop_no_faults issue_def
        matches_filter_Some matches_filter_None)
qed

text \<open>
  C8. \<open>ListImages\<close> on a backend that fails no call. The complete listing (no limit, no
  offset) holds exactly the documents of the collection that carry at least one of the given
  tags, every document when no tag is given, each as often as the collection holds it, in
  descending order of \<open>CreatedAt\<close>. A call with a limit and an offset returns the slice of
  that ordered listing: the first \<open>offset\<close> documents are skipped, then at most \<open>limit\<close>
  are taken; a limit that is not positive does not limit, an offset that is not positive
  skips nothing. The call changes neither the bucket nor the collection.
\<close>

theorem list_images_page:
  "\<exists>page full.
     fst (ListImages no_faults s tags limit offset) = Inr page \<and>
     fst (ListImages no_faults s tags 0 0) = Inr full \<and>
     mset full =
       filter_mset (\<lambda>m. tags = [] \<or> set (Tags m) \<inter> set tags \<noteq> {}) (mset (metaCollection s)) \<and>
     sorted_wrt (\<lambda>a b. CreatedAt b \<le> CreatedAt a) full \<and>
     page = (if limit > 0 then take (nat limit) (drop (nat offset) full)
             else drop (nat offset) full) \<and>
     bucket (snd (ListImages no_faults s tags limit offset)) = bucket s \<and>
     metaCollection (snd (ListImages no_faults s tags limit offset)) = metaCollection s"
proof -
  let ?full = "sort_key (\<lambda>m. - CreatedAt m)
      (filter (\<lambda>m. tags = [] \<or> set (Tags m) \<inter> set tags \<noteq> {}) (metaCollection s))"
  let ?page = "if limit > 0 then take (nat limit) (drop (nat offset) ?full)
      else drop (nat offset) ?full"
  have 1: "fst (ListImages no_faults s tags limit offset) = Inr ?page"
    by (simp add: ListImages_no_faults)
  have 2: "fst (ListImages no_faults s tags 0 0) = Inr ?full"
    by (simp add: ListImages_no_faults)
  have 3: "mset ?full =
      filter_mset (\<lambda>m. tags = [] \<or> set (Tags m) \<inter> set tags \<noteq> {}) (mset (metaCollection s))"
    by simp
  have 4: "sorted_wrt (\<lambda>a b. CreatedAt b \<le> CreatedAt a) ?full"
    by (rule sorted_desc_sort_key)
  have 5: "bucket (snd (ListImages no_faults s tags limit offset)) = bucket s"
    "metaCollection (snd (ListImages no_faults s tags limit offset)) = metaCollection s"
    by (simp_all add: ListImages_no_faults)
  from 1 2 3 4 5 show ?thesis by blast
qed

theorem list_images_page_witness:
  "fst (ListImages no_faults store_three [''x''] 0 0) = Inr [meta_c, meta_a] \<and>
   fst (ListImages no_faults store_three [''x''] 1 1) = Inr [meta_a] \<and>
   fst (ListImages no_faults store_three [] 0 0) = Inr [meta_b, meta_c, meta_a] \<and>
   fst (ListImages no_faults store_three [] 2 0) = Inr [meta_b, meta_c]"
proof -
  have full: "fst (ListImages no_faults store_three [''x''] 0 0) = Inr [meta_c, meta_a]"
    "fst (ListImages no_faults store_three [] 0 0) = Inr [meta_b, meta_c, meta_a]"
    by (simp_all add: ListImages_no_faults store_three_def meta_a_def meta_b_def meta_c_def)
  from list_images_page[of store_three "[''x'']" 1 1] full(1)
  have p1: "fst (ListImages no_faults store_three [''x''] 1 1) = Inr [meta_a]"
    by auto
  from list_images_page[of store_three "[]" 2 0] full(2)
  have p2: "fst (ListImages no_faults store_three [] 2 0) = Inr [meta_b, meta_c]"
    by auto
  from full p1 p2 show ?thesis by simp
qed

subsection \<open>Reconciliation\<close>

lemma count_zero_iff:
  "(filter (\<lambda>m. GridFSID m = k) docs = []) = (\<not> referenced docs k)"
  by (auto simp add: referenced_def filter_empty_conv)

lemma cleanup_step_swept:
  assumes "swept flt (metaCollection s) k" and "k \<in> fst ` set (bucket s)"
  shows "cleanup_loop flt (k # ks) n s =
           cleanup_loop flt ks (n + 1)
             (s\<lparr>bucket := filter (\<lambda>kv. fst kv \<noteq> k) (bucket s),
                calls := calls s @ [CountDocuments_gridfsID k, Bucket_Delete k]\<rparr>)"
  using assms
  by (simp add: swept_def coll_CountDocuments_def bucket_Delete_def issue_def count_zero_iff)

lemma cleanup_step_not_swept:
  assumes "\<not> swept flt (metaCollection s) k"
  shows "\<exists>cs. cleanup_loop flt (k # ks) n s = cleanup_loop flt ks n (s\<lparr>calls := calls s @ cs\<rparr>)"
proof (cases "flt (Cursor_Decode_file k)")
  case (Some e)
  then have "cleanup_loop flt (k # ks) n s = cleanup_loop flt ks n (s\<lparr>calls := calls s @ []\<rparr>)"
    by simp
  then show ?thesis by blast
next
  case None
  note dec = None
  show ?thesis
  proof (cases "flt (CountDocuments_gridfsID k)")
    case (Some e)
    with dec have "cleanup_loop flt (k # ks) n s =
        cleanup_loop flt ks n (s\<lparr>calls := calls s @ [CountDocuments_gridfsID k]\<rparr>)"
      by (simp add: coll_CountDocuments_def issue_def)
    then show ?thesis by blast
  next
    case None
    note cnt = None
    show ?thesis
    proof (cases "referenced (metaCollection s) k")
      case True
      with dec cnt have "cleanup_loop flt (k # ks) n s =
          cleanup_loop flt ks n (s\<lparr>calls := calls s @ [CountDocuments_gridfsID k]\<rparr>)"
        by (simp add: coll_CountDocuments_def issue_def count_zero_iff)
      then show ?thesis by blast
    next
      case False
      with assms dec cnt obtain e where del: "flt (Bucket_Delete k) = Some e"
        by (auto simp add: swept_def)
      with dec cnt False have "cleanup_loop flt (k # ks) n s =
          cleanup_loop flt ks n
            (s\<lparr>calls := calls s @ [CountDocuments_gridfsID k, Bucket_Delete k]\<rparr>)"
        by (simp add: coll_CountDocuments_def bucket_Delete_def issue_def count_zero_iff)
      then show ?thesis by blast
    qed
  qed
qed

lemma cleanup_loop_general:
  assumes "distinct ks" and "set ks \<subseteq> fst ` set (bucket s)"
  shows "fst (cleanup_loop flt ks n s) =
           n + int (length (filter (swept flt (metaCollection s)) ks)) \<and>
         bucket (snd (cleanup_loop flt ks n s)) =
           filter (\<lambda>kv. \<not> (fst kv \<in> set ks \<and> swept flt (metaCollection s) (fst kv))) (bucket s)"
  using assms
proof (induction ks arbitrary: n s)
  case Nil
  then show ?case by simp
next
  case (Cons k ks)
  from Cons.prems have d: "distinct ks" and nk: "k \<notin> set ks"
    and sub: "set ks \<subseteq> fst ` set (bucket s)" and kin: "k \<in> fst ` set (bucket s)"
    by auto
  show ?case
  proof (cases "swept flt (metaCollection s) k")
    case True
    let ?s' = "s\<lparr>bucket := filter (\<lambda>kv. fst kv \<noteq> k) (bucket s),
                calls := calls s @ [CountDocuments_gridfsID k, Bucket_Delete k]\<rparr>"
    have step: "cleanup_loop flt (k # ks) n s = cleanup_loop flt ks (n + 1) ?s'"
      using True kin by (rule cleanup_step_swept)
    have sub': "set ks \<subseteq> fst ` set (bucket ?s')"
      using sub nk by force
    from Cons.IH[OF d sub', of "n + 1"] True nk
    show ?thesis
      by (simp add: step del: cleanup_loop.simps) (rule filter_cong, auto)
  next
    case False
    from cleanup_step_not_swept[OF False, of ks n] obtain cs where
      step: "cleanup_loop flt (k # ks) n s = cleanup_loop flt ks n (s\<lparr>calls := calls s @ cs\<rparr>)"
      by blast
    have sub': "set ks \<subseteq> fst ` set (bucket (s\<lparr>calls := calls s @ cs\<rparr>))"
      using sub by simp
    from Cons.IH[OF d sub', of n] False
    show ?thesis
      by (simp add: step del: cleanup_loop.simps) (rule filter_cong, auto)
  qed
qed

lemma CleanupOrphanedFiles_general:
  assumes "flt Bucket_Find = None" and "distinct (map fst (bucket s))"
  shows "fst (CleanupOrphanedFiles flt s) =
           (int (length (filter (swept flt (metaCollection s)) (map fst (bucket s)))), None) \<and>
         bucket (snd (CleanupOrphanedFiles flt s)) =
           filter (\<lambda>kv. \<not> swept flt (metaCollection s) (fst kv)) (bucket s)"
proof -
  let ?s1 = "issue Bucket_Find s"
  have "set (map fst (bucket s)) \<subseteq> fst ` set (bucket ?s1)"
    by (simp add: issue_def)
  from cleanup_loop_general[OF assms(2) this, of flt 0]
  have "fst (cleanup_loop flt (map fst (bucket s)) 0 ?s1) =
          int (length (filter (swept flt (metaCollection s)) (map fst (bucket s))))"
    and "bucket (snd (cleanup_loop flt (map fst (bucket s)) 0 ?s1)) =
          filter (\<lambda>kv. \<not> swept flt (metaCollection s) (fst kv)) (bucket s)"
    by (simp_all add: issue_def cong: filter_cong)
  then show ?thesis
    using assms(1)
    by (auto simp add: CleanupOrphanedFiles_def bucket_Find_def split: prod.splits)
qed

lemma swept_no_faults: "swept no_faults docs k = (\<not> referenced docs k)"
  by (simp add: swept_def no_faults_def)

lemma store_success_appends:
  assumes "StoreImageFromReader ev flt s (Inr P) filename tags metadata = ((i, None), s')"
  shows "metaCollection s' = metaCollection s @ [new_meta ev P filename tags metadata] \<and>
         (bucket s' = bucket s \<or> bucket s' = bucket s @ [(NewObjectID ev, P)])"
  using assms
  by (auto simp add: StoreImageFromReader_def GetImageByChecksum_def prims Let_def new_meta_def
      split: option.splits sum.splits prod.splits if_splits)

lemma stores_succeed_inv:
  "stores_succeed reqs s0 = Some s \<Longrightarrow>
   \<forall>k \<in> fst ` set (bucket s0). referenced (metaCollection s0) k \<Longrightarrow>
     (\<forall>k \<in> fst ` set (bucket s). referenced (metaCollection s) k) \<and>
     length (metaCollection s) = length (metaCollection s0) + length reqs"
proof (induction reqs s0 rule: stores_succeed.induct)
  case (1 s0)
  then show ?case by simp
next
  case (2 ev flt P filename tags metadata rs s0)
  from "2.prems"(1) obtain i s' where
    st: "StoreImageFromReader ev flt s0 (Inr P) filename tags metadata = ((i, None), s')"
    and rest: "stores_succeed rs s' = Some s"
    by (auto split: prod.splits option.splits)
  from store_success_appends[OF st]
  have m': "metaCollection s' = metaCollection s0 @ [new_meta ev P filename tags metadata]"
    and b': "bucket s' = bucket s0 \<or> bucket s' = bucket s0 @ [(NewObjectID ev, P)]"
    by simp_all
  have inv': "\<forall>k \<in> fst ` set (bucket s'). referenced (metaCollection s') k"
    using b' "2.prems"(2) by (auto simp add: m' referenced_def new_meta_def)
  have len': "length (metaCollection s') = Suc (length (metaCollection s0))"
    by (simp add: m')
  from "2.IH"[OF st[symmetric] refl refl rest inv'] len'
  show ?case by simp
qed

lemma cleanup_loop_referenced:
  "\<forall>k \<in> set ks. referenced (metaCollection s) k \<Longrightarrow>
     \<exists>cs. cleanup_loop flt ks n s = (n, s\<lparr>calls := calls s @ cs\<rparr>)"
proof (induction ks arbitrary: s)
  case Nil
  have "cleanup_loop flt [] n s = (n, s\<lparr>calls := calls s @ []\<rparr>)" by simp
  then show ?case by blast
next
  case (Cons k ks)
  then have "\<not> swept flt (metaCollection s) k"
    by (simp add: swept_def)
  from cleanup_step_not_swept[OF this, of ks n] obtain cs1 where
    step: "cleanup_loop flt (k # ks) n s = cleanup_loop flt ks n (s\<lparr>calls := calls s @ cs1\<rparr>)"
    by blast
  from Cons.prems have "\<forall>k \<in> set ks. referenced (metaCollection (s\<lparr>calls := calls s @ cs1\<rparr>)) k"
    by simp
  from Cons.IH[OF this] obtain cs2 where
    "cleanup_loop flt ks n (s\<lparr>calls := calls s @ cs1\<rparr>) = (n, s\<lparr>calls := calls s @ (cs1 @ cs2)\<rparr>)"
    by auto
  with step show ?case
    by (metis)
qed

lemma cleanup_loop_append:
  "cleanup_loop flt (xs @ ys) n s =
     (case cleanup_loop flt xs n s of (n', s') \<Rightarrow> cleanup_loop flt ys n' s')"
  by (induction xs arbitrary: n s)
     (auto split: option.splits sum.splits prod.splits)

lemma sweep_one_orphan:
  assumes inv: "\<forall>k \<in> fst ` set (bucket s). referenced (metaCollection s) k"
      and mc: "metaCollection t = metaCollection s"
      and bc: "bucket t = bucket s @ [(g, P)]"
      and fresh: "\<not> referenced (metaCollection s) g"
  shows "fst (CleanupOrphanedFiles no_faults t) = (1, None) \<and>
         bucket (snd (CleanupOrphanedFiles no_faults t)) = bucket s"
proof -
  let ?s1 = "issue Bucket_Find t"
  have "\<forall>k \<in> set (map fst (bucket s)). referenced (metaCollection ?s1) k"
    using inv by (auto simp add: mc issue_def)
  from cleanup_loop_referenced[OF this, of no_faults 0] obtain cs where
    pre: "cleanup_loop no_faults (map fst (bucket s)) 0 ?s1 = (0, ?s1\<lparr>calls := calls ?s1 @ cs\<rparr>)"
    by blast
  let ?s2 = "?s1\<lparr>calls := calls ?s1 @ cs\<rparr>"
  have sw: "swept no_faults (metaCollection ?s2) g"
    using fresh by (simp add: swept_no_faults mc issue_def)
  have kin: "g \<in> fst ` set (bucket ?s2)"
    by (simp add: bc issue_def)
  have notin: "g \<notin> fst ` set (bucket s)"
    using inv fresh by blast
  have last: "cleanup_loop no_faults [g] 0 ?s2 =
      (1, ?s2\<lparr>bucket := filter (\<lambda>kv. fst kv \<noteq> g) (bucket ?s2),
              calls := calls ?s2 @ [CountDocuments_gridfsID g, Bucket_Delete g]\<rparr>)"
    using cleanup_step_swept[OF sw kin, of "[]" 0] by simp
  have flt: "filter (\<lambda>kv. fst kv \<noteq> g) (bucket s) = bucket s"
    using notin by (force simp add: filter_id_conv)
  have loop: "cleanup_loop no_faults (map fst (bucket t)) 0 ?s1 =
      (1, ?s2\<lparr>bucket := filter (\<lambda>kv. fst kv \<noteq> g) (bucket ?s2),
              calls := calls ?s2 @ [CountDocuments_gridfsID g, Bucket_Delete g]\<rparr>)"
    by (simp only: bc map_append list.map fst_conv cleanup_loop_append pre prod.case last)
  have "CleanupOrphanedFiles no_faults t =
      ((1, None), ?s2\<lparr>bucket := filter (\<lambda>kv. fst kv \<noteq> g) (bucket ?s2),
              calls := calls ?s2 @ [CountDocuments_gridfsID g, Bucket_Delete g]\<rparr>)"
    using loop by (simp add: CleanupOrphanedFiles_def bucket_Find_def no_faults_def)
  then show ?thesis
    by (simp add: bc issue_def flt)
qed

lemma store_cut_after_write_stores:
  "bucket (store_cut_after_write ev s P filename) = bucket s \<and>
   metaCollection (store_cut_after_write ev s P filename) = metaCollection s"
  by (simp add: store_cut_after_write_def uploadStream_Write_def
      bucket_OpenUploadStreamWithID_def GetImageByChecksum_def coll_FindOne_def issue_def
      no_faults_def split: option.splits sum.splits prod.splits)

lemma store_resumes_after_cut:
  assumes "isValidImageType (DetectContentType ev P)"
      and "find (\<lambda>m. Checksum m = sha256_hex ev P) (metaCollection s) = None"
  shows "StoreImageFromReader ev no_faults s (Inr P) filename tags metadata =
           ((xid_New ev, None),
            snd (uploadStream_Close no_faults \<lparr>FileID = NewObjectID ev, buffered = P\<rparr>
              (snd (coll_InsertOne no_faults (new_meta ev P filename tags metadata)
                 (store_cut_after_write ev s P filename)))))"
  using assms
  by (simp add: StoreImageFromReader_def GetImageByChecksum_def prims Let_def new_meta_def
      store_cut_after_write_def no_faults_def)

lemma first_store_example:
  "StoreImageFromReader ev1 no_faults empty_store (Inr png_bytes) ''a.png'' [''x''] [] =
     ((''img1'', None), after_first_store)"
  by (simp add: examples StoreImageFromReader_def GetImageByChecksum_def prims Let_def)

text \<open>
  C5, as stated, fails on the code in its scenario. After one successful store, a second
  store call of another image is cut between the write to the upload stream and
  \<open>InsertOne\<close>. The write has only buffered the bytes and the deferred close has not run,
  so the bucket holds the first blob alone: there is no orphan, and the sweep returns 0, not
  1.
\<close>

theorem sweep_after_cut_counterexample:
  "stores_succeed [(ev1, no_faults, png_bytes, ''a.png'', [''x''], [])] empty_store =
     Some after_first_store \<and>
   bucket (store_cut_after_write ev2 after_first_store (png_bytes @ [0]) ''b.png'') =
     [(1, png_bytes)] \<and>
   fst (CleanupOrphanedFiles no_faults
          (store_cut_after_write ev2 after_first_store (png_bytes @ [0]) ''b.png'')) = (0, None)"
  by (simp add: first_store_example)
     (simp add: examples store_cut_after_write_def CleanupOrphanedFiles_def
        GetImageByChecksum_def prims)

text \<open>
  C5, amended. \<open>CleanupOrphanedFiles\<close>. (1) It never changes the collection, whatever the
  backend does; if the listing of the bucket fails it returns 0 with that error and deletes
  nothing. (2) When the listing succeeds (keys are unique in a bucket), the keys it removes
  are exactly the swept ones: those whose file decodes, whose count succeeds and is zero (no
  document has the key as \<open>GridFSID\<close>), and whose delete succeeds; the number it returns
  is the number of keys so removed, and an item whose decode, count or delete fails is left
  in place while the items after it are still processed. (3) On a backend that fails no call
  the bucket afterwards holds exactly the blobs whose key some document references, and the
  number returned is the number of keys with no referencing document. (4) After \<open>N\<close>
  store calls that returned no error, starting from the empty store, in every store that
  holds the documents and the blobs they left and one more blob under a key that no document
  references, the collection holds \<open>N\<close> documents, the sweep returns 1, and it leaves
  the collection and the blobs of the \<open>N\<close> stores as they were.
\<close>

theorem sweep_removes_orphans:
  "metaCollection (snd (CleanupOrphanedFiles flt s)) = metaCollection s \<and>
   (flt Bucket_Find = Some e \<longrightarrow>
      CleanupOrphanedFiles flt s =
        ((0, Some (Wrapped ''failed to list GridFS files'' e)), issue Bucket_Find s)) \<and>
   (flt Bucket_Find = None \<and> distinct (map fst (bucket s)) \<longrightarrow>
      fst (CleanupOrphanedFiles flt s) =
        (int (length (filter (swept flt (metaCollection s)) (map fst (bucket s)))), None) \<and>
      bucket (snd (CleanupOrphanedFiles flt s)) =
        filter (\<lambda>kv. \<not> swept flt (metaCollection s) (fst kv)) (bucket s)) \<and>
   (distinct (map fst (bucket s)) \<longrightarrow>
      fst (CleanupOrphanedFiles no_faults s) =
        (int (length (filter (\<lambda>k. \<not> referenced (metaCollection s) k) (map fst (bucket s)))),
         None) \<and>
      bucket (snd (CleanupOrphanedFiles no_faults s)) =
        filter (\<lambda>kv. referenced (metaCollection s) (fst kv)) (bucket s)) \<and>
   (stores_succeed reqs empty_store = Some sN \<and>
    metaCollection t = metaCollection sN \<and> bucket t = bucket sN @ [(g, P)] \<and>
    \<not> referenced (metaCollection sN) g \<longrightarrow>
      length (metaCollection sN) = length reqs \<and>
      fst (CleanupOrphanedFiles no_faults t) = (1, None) \<and>
      metaCollection (snd (CleanupOrphanedFiles no_faults t)) = metaCollection sN \<and>
      bucket (snd (CleanupOrphanedFiles no_faults t)) = bucket sN)"
proof (intro conjI impI)
  show "metaCollection (snd (CleanupOrphanedFiles flt s)) = metaCollection s"
    by (rule CleanupOrphanedFiles_meta)
next
  assume "flt Bucket_Find = Some e"
  then show "CleanupOrphanedFiles flt s =
      ((0, Some (Wrapped ''failed to list GridFS files'' e)), issue Bucket_Find s)"
    by (simp add: CleanupOrphanedFiles_def bucket_Find_def)
next
  assume a: "flt Bucket_Find = None \<and> distinct (map fst (bucket s))"
  then have f: "flt Bucket_Find = None" and d: "distinct (map fst (bucket s))"
    by simp_all
  from CleanupOrphanedFiles_general[where flt = flt, OF f d]
  show "fst (CleanupOrphanedFiles flt s) =
          (int (length (filter (swept flt (metaCollection s)) (map fst (bucket s)))), None)"
    and "bucket (snd (CleanupOrphanedFiles flt s)) =
          filter (\<lambda>kv. \<not> swept flt (metaCollection s) (fst kv)) (bucket s)"
    by simp_all
next
  assume d: "distinct (map fst (bucket s))"
  have f: "no_faults Bucket_Find = None"
    by (simp add: no_faults_def)
  from CleanupOrphanedFiles_general[where flt = no_faults, OF f d]
  show "fst (CleanupOrphanedFiles no_faults s) =
          (int (length (filter (\<lambda>k. \<not> referenced (metaCollection s) k) (map fst (bucket s)))),
           None)"
    and "bucket (snd (CleanupOrphanedFiles no_faults s)) =
          filter (\<lambda>kv. referenced (metaCollection s) (fst kv)) (bucket s)"
    by (simp_all add: swept_no_faults comp_def)
next
  assume a: "stores_succeed reqs empty_store = Some sN \<and>
    metaCollection t = metaCollection sN \<and> bucket t = bucket sN @ [(g, P)] \<and>
    \<not> referenced (metaCollection sN) g"
  then have st: "stores_succeed reqs empty_store = Some sN"
    and mc: "metaCollection t = metaCollection sN"
    and bc: "bucket t = bucket sN @ [(g, P)]"
    and fresh: "\<not> referenced (metaCollection sN) g"
    by simp_all
  have "\<forall>k \<in> fst ` set (bucket empty_store). referenced (metaCollection empty_store) k"
    by (simp add: empty_store_def)
  from stores_succeed_inv[OF st this]
  have inv: "\<forall>k \<in> fst ` set (bucket sN). referenced (metaCollection sN) k"
    and len: "length (metaCollection sN) = length reqs"
    by (simp_all add: empty_store_def)
  show "length (metaCollection sN) = length reqs"
    by (rule len)
  from sweep_one_orphan[OF inv mc bc fresh]
  show "fst (CleanupOrphanedFiles no_faults t) = (1, None)"
    and "bucket (snd (CleanupOrphanedFiles no_faults t)) = bucket sN"
    by simp_all
  show "metaCollection (snd (CleanupOrphanedFiles no_faults t)) = metaCollection sN"
    by (simp add: CleanupOrphanedFiles_meta mc)
qed

theorem sweep_removes_orphans_witness:
  "fst (CleanupOrphanedFiles (fail_on (Bucket_Delete 20) (IOErr ''busy'')) store_orphans) =
     (2, None) \<and>
   bucket (snd (CleanupOrphanedFiles (fail_on (Bucket_Delete 20) (IOErr ''busy'')) store_orphans)) =
     [(20, txt_bytes), (7, png_bytes)] \<and>
   fst (CleanupOrphanedFiles no_faults store_orphans) = (3, None) \<and>
   bucket (snd (CleanupOrphanedFiles no_faults store_orphans)) = [(7, png_bytes)] \<and>
   metaCollection (snd (CleanupOrphanedFiles (fail_on (Bucket_Delete 20) (IOErr ''busy''))
     store_orphans)) = [meta0] \<and>
   stores_succeed [(ev1, no_faults, png_bytes, ''a.png'', [''x''], [])] empty_store =
     Some after_first_store \<and>
   bucket (snd (StoreImageFromReader ev2 (fail_on (InsertOne ''img2'') (IOErr ''insert refused''))
          after_first_store (Inr (png_bytes @ [0])) ''b.png'' [] [])) =
     [(1, png_bytes), (2, png_bytes @ [0])] \<and>
   fst (CleanupOrphanedFiles no_faults
          (snd (StoreImageFromReader ev2 (fail_on (InsertOne ''img2'') (IOErr ''insert refused''))
             after_first_store (Inr (png_bytes @ [0])) ''b.png'' [] []))) = (1, None) \<and>
   metaCollection (snd (CleanupOrphanedFiles no_faults
          (snd (StoreImageFromReader ev2 (fail_on (InsertOne ''img2'') (IOErr ''insert refused''))
             after_first_store (Inr (png_bytes @ [0])) ''b.png'' [] [])))) =
     [new_meta ev1 png_bytes ''a.png'' [''x''] []] \<and>
   bucket (snd (CleanupOrphanedFiles no_faults
          (snd (StoreImageFromReader ev2 (fail_on (InsertOne ''img2'') (IOErr ''insert refused''))
             after_first_store (Inr (png_bytes @ [0])) ''b.png'' [] [])))) =
     [(1, png_bytes)]"
proof -
  let ?t = "snd (StoreImageFromReader ev2 (fail_on (InsertOne ''img2'') (IOErr ''insert refused''))
             after_first_store (Inr (png_bytes @ [0])) ''b.png'' [] [])"
  have st: "stores_succeed [(ev1, no_faults, png_bytes, ''a.png'', [''x''], [])] empty_store =
      Some after_first_store"
    by (simp add: first_store_example)
  have a: "after_first_store =
      \<lparr>bucket = [(1, png_bytes)], metaCollection = [new_meta ev1 png_bytes ''a.png'' [''x''] []],
       calls = [FindOne_checksum ''d1'', OpenUploadStreamWithID 1 ''a.png'',
                UploadStream_Write 1, InsertOne ''img1'', UploadStream_Close 1]\<rparr>"
    by (simp add: after_first_store_def)
  have t: "metaCollection ?t = metaCollection after_first_store"
    "bucket ?t = bucket after_first_store @ [(2, png_bytes @ [0])]"
    by (simp_all add: examples StoreImageFromReader_def GetImageByChecksum_def prims Let_def)
  have fresh: "\<not> referenced (metaCollection after_first_store) 2"
    by (simp add: a referenced_def new_meta_def ev1_def)
  from sweep_removes_orphans[where flt = "fail_on (Bucket_Delete 20) (IOErr ''busy'')"
      and s = store_orphans
      and reqs = "[(ev1, no_faults, png_bytes, ''a.png'', [''x''], [])]"
      and sN = after_first_store and t = ?t and g = 2 and P = "png_bytes @ [0]"] st t fresh
  show ?thesis
    by (simp add: a store_orphans_def meta0_def swept_def referenced_def fail_on_def)
qed

end
